theory Spec2Isabelle
  imports Complex_Main
begin

section \<open>JavaScript values\<close>

text \<open>
  The module \<^verbatim>\<open>Source/Core/Matrix2.js\<close> computes with JavaScript numbers and with
  \<^verbatim>\<open>undefined\<close>.  A number is one of the three special IEEE values or a finite value.
  Finite arithmetic is exact in this model (rounding of doubles is not represented), and
  the two zeros are identified, as \<^verbatim>\<open>===\<close> and the conversion to a string identify them;
  no operation of the module tells them apart.
\<close>

datatype jsnum = NaN | PInf | NInf | Fin real

datatype jsval = Undefined | Num jsnum

text \<open>ToNumber: \<^verbatim>\<open>undefined\<close> converts to NaN.\<close>

fun toNumber :: "jsval \<Rightarrow> jsnum" where
  "toNumber Undefined = NaN"
| "toNumber (Num n) = n"

text \<open>The product of an infinity of sign \<open>pos\<close> and a finite factor.\<close>

definition infTimes :: "bool \<Rightarrow> real \<Rightarrow> jsnum" where
  "infTimes pos r =
     (if r = 0 then NaN else if (0 < r) = pos then PInf else NInf)"

fun jsMul :: "jsnum \<Rightarrow> jsnum \<Rightarrow> jsnum" where
  "jsMul NaN b = NaN"
| "jsMul PInf NaN = NaN"
| "jsMul PInf PInf = PInf"
| "jsMul PInf NInf = NInf"
| "jsMul PInf (Fin r) = infTimes True r"
| "jsMul NInf NaN = NaN"
| "jsMul NInf PInf = NInf"
| "jsMul NInf NInf = PInf"
| "jsMul NInf (Fin r) = infTimes False r"
| "jsMul (Fin r) NaN = NaN"
| "jsMul (Fin r) PInf = infTimes True r"
| "jsMul (Fin r) NInf = infTimes False r"
| "jsMul (Fin r) (Fin s) = Fin (r * s)"

fun jsAdd :: "jsnum \<Rightarrow> jsnum \<Rightarrow> jsnum" where
  "jsAdd NaN b = NaN"
| "jsAdd PInf NaN = NaN"
| "jsAdd PInf NInf = NaN"
| "jsAdd PInf PInf = PInf"
| "jsAdd PInf (Fin s) = PInf"
| "jsAdd NInf NaN = NaN"
| "jsAdd NInf PInf = NaN"
| "jsAdd NInf NInf = NInf"
| "jsAdd NInf (Fin s) = NInf"
| "jsAdd (Fin r) NaN = NaN"
| "jsAdd (Fin r) PInf = PInf"
| "jsAdd (Fin r) NInf = NInf"
| "jsAdd (Fin r) (Fin s) = Fin (r + s)"

fun jsNeg :: "jsnum \<Rightarrow> jsnum" where
  "jsNeg NaN = NaN"
| "jsNeg PInf = NInf"
| "jsNeg NInf = PInf"
| "jsNeg (Fin r) = Fin (- r)"

definition jsSub :: "jsnum \<Rightarrow> jsnum \<Rightarrow> jsnum" where
  "jsSub a b = jsAdd a (jsNeg b)"

text \<open>\<^verbatim>\<open>Math.abs\<close>.\<close>

fun jsAbs :: "jsnum \<Rightarrow> jsnum" where
  "jsAbs NaN = NaN"
| "jsAbs PInf = PInf"
| "jsAbs NInf = PInf"
| "jsAbs (Fin r) = Fin \<bar>r\<bar>"

text \<open>The comparisons \<^verbatim>\<open><\<close> and \<^verbatim>\<open><=\<close>: false as soon as an operand is NaN.\<close>

fun jsLt :: "jsnum \<Rightarrow> jsnum \<Rightarrow> bool" where
  "jsLt NaN b = False"
| "jsLt PInf b = False"
| "jsLt NInf NaN = False"
| "jsLt NInf NInf = False"
| "jsLt NInf PInf = True"
| "jsLt NInf (Fin s) = True"
| "jsLt (Fin r) NaN = False"
| "jsLt (Fin r) PInf = True"
| "jsLt (Fin r) NInf = False"
| "jsLt (Fin r) (Fin s) = (r < s)"

fun jsLe :: "jsnum \<Rightarrow> jsnum \<Rightarrow> bool" where
  "jsLe NaN b = False"
| "jsLe PInf NaN = False"
| "jsLe PInf PInf = True"
| "jsLe PInf NInf = False"
| "jsLe PInf (Fin s) = False"
| "jsLe NInf NaN = False"
| "jsLe NInf PInf = True"
| "jsLe NInf NInf = True"
| "jsLe NInf (Fin s) = True"
| "jsLe (Fin r) NaN = False"
| "jsLe (Fin r) PInf = True"
| "jsLe (Fin r) NInf = False"
| "jsLe (Fin r) (Fin s) = (r \<le> s)"

text \<open>Strict equality \<^verbatim>\<open>===\<close> on values: NaN is not equal to itself.\<close>

fun strictEq :: "jsval \<Rightarrow> jsval \<Rightarrow> bool" where
  "strictEq Undefined Undefined = True"
| "strictEq Undefined (Num b) = False"
| "strictEq (Num a) Undefined = False"
| "strictEq (Num NaN) (Num b) = False"
| "strictEq (Num PInf) (Num b) = (b = PInf)"
| "strictEq (Num NInf) (Num b) = (b = NInf)"
| "strictEq (Num (Fin r)) (Num b) = (b = Fin r)"

text \<open>The operators of the module applied to values, converting with ToNumber.\<close>

definition mulV :: "jsval \<Rightarrow> jsval \<Rightarrow> jsval" where
  "mulV a b = Num (jsMul (toNumber a) (toNumber b))"

definition addV :: "jsval \<Rightarrow> jsval \<Rightarrow> jsval" where
  "addV a b = Num (jsAdd (toNumber a) (toNumber b))"

definition negV :: "jsval \<Rightarrow> jsval" where
  "negV a = Num (jsNeg (toNumber a))"

definition absDiffV :: "jsval \<Rightarrow> jsval \<Rightarrow> jsnum" where
  "absDiffV a b = jsAbs (jsSub (toNumber a) (toNumber b))"

section \<open>Objects and the heap\<close>

text \<open>
  Objects are reached through references, so that two names may denote one object and a
  write through one is seen through the other.  An array has its indexed elements and the
  properties stored under keys that are not array indices (a write \<^verbatim>\<open>a[0.5] = v\<close>
  creates one).  A \<^verbatim>\<open>Matrix2\<close> instance holds the reference of its \<^verbatim>\<open>values\<close> array: the
  constructor stores the array it receives without copying it.  Every object carries the
  flag that \<^verbatim>\<open>Object.freeze\<close> sets.
\<close>

type_synonym addr = nat

datatype obj =
    ArrayObj "jsval list" "(jsnum \<times> jsval) list"
  | Matrix2Obj addr
  | Cartesian2Obj jsval jsval

record cell =
  body :: obj
  frozen :: bool

type_synonym heap = "cell list"

datatype error = DeveloperError string | TypeError

definition bindE :: "error + 'a \<Rightarrow> ('a \<Rightarrow> error + 'b) \<Rightarrow> error + 'b" where
  "bindE m f = (case m of Inl e \<Rightarrow> Inl e | Inr x \<Rightarrow> f x)"

definition objAt :: "heap \<Rightarrow> addr \<Rightarrow> obj option" where
  "objAt h a = (if a < length h then Some (body (h ! a)) else None)"

definition isFrozen :: "heap \<Rightarrow> addr \<Rightarrow> bool" where
  "isFrozen h a = (a < length h \<and> frozen (h ! a))"

definition alloc :: "heap \<Rightarrow> obj \<Rightarrow> addr \<times> heap" where
  "alloc h ob = (length h, h @ [\<lparr>body = ob, frozen = False\<rparr>])"

definition store :: "heap \<Rightarrow> addr \<Rightarrow> obj \<Rightarrow> heap" where
  "store h a ob = h[a := (h ! a)\<lparr>body := ob\<rparr>]"

text \<open>\<^verbatim>\<open>Object.freeze(o)\<close> marks the object \<open>o\<close> itself and nothing that \<open>o\<close> refers to.\<close>

definition objectFreeze :: "heap \<Rightarrow> addr \<Rightarrow> heap" where
  "objectFreeze h a = h[a := (h ! a)\<lparr>frozen := True\<rparr>]"

subsection \<open>Arrays\<close>

text \<open>A number is an array index when it is a natural number below \<open>2^32 - 1\<close>.\<close>

definition isIndex :: "real \<Rightarrow> bool" where
  "isIndex r = (0 \<le> r \<and> r < 4294967295 \<and> r = of_int \<lfloor>r\<rfloor>)"

definition lookupProp :: "(jsnum \<times> jsval) list \<Rightarrow> jsnum \<Rightarrow> jsval" where
  "lookupProp ps k = (case map_of ps k of None \<Rightarrow> Undefined | Some v \<Rightarrow> v)"

text \<open>Reading \<^verbatim>\<open>a[k]\<close>: an index past the end and a missing property read as \<^verbatim>\<open>undefined\<close>.\<close>

fun arrayRead :: "jsval list \<Rightarrow> (jsnum \<times> jsval) list \<Rightarrow> jsnum \<Rightarrow> jsval" where
  "arrayRead es ps (Fin r) =
     (if isIndex r
      then (if nat \<lfloor>r\<rfloor> < length es then es ! nat \<lfloor>r\<rfloor> else Undefined)
      else lookupProp ps (Fin r))"
| "arrayRead es ps k = lookupProp ps k"

text \<open>Writing \<^verbatim>\<open>a[k] = v\<close>: an index past the end extends the array, the gap reading as
  \<^verbatim>\<open>undefined\<close>; any other key becomes a property.\<close>

definition writeElem :: "jsval list \<Rightarrow> nat \<Rightarrow> jsval \<Rightarrow> jsval list" where
  "writeElem es i v =
     (if i < length es then es[i := v]
      else es @ replicate (i - length es) Undefined @ [v])"

fun arrayWrite :: "jsval list \<Rightarrow> (jsnum \<times> jsval) list \<Rightarrow> jsnum \<Rightarrow> jsval \<Rightarrow> obj" where
  "arrayWrite es ps (Fin r) v =
     (if isIndex r then ArrayObj (writeElem es (nat \<lfloor>r\<rfloor>) v) ps
      else ArrayObj es ((Fin r, v) # ps))"
| "arrayWrite es ps k v = ArrayObj es ((k, v) # ps)"

text \<open>
  Element access through a reference.  The module runs in strict mode, where a write to
  a frozen object throws a \<^verbatim>\<open>TypeError\<close>.  A reference that is not an array is outside
  the typed interface and is reported as a \<^verbatim>\<open>TypeError\<close> as well.
\<close>

definition elemGet :: "heap \<Rightarrow> addr \<Rightarrow> jsnum \<Rightarrow> error + jsval" where
  "elemGet h a k =
     (case objAt h a of
        Some (ArrayObj es ps) \<Rightarrow> Inr (arrayRead es ps k)
      | _ \<Rightarrow> Inl TypeError)"

definition elemSet :: "heap \<Rightarrow> addr \<Rightarrow> jsnum \<Rightarrow> jsval \<Rightarrow> error + heap" where
  "elemSet h a k v =
     (case objAt h a of
        Some (ArrayObj es ps) \<Rightarrow>
          (if isFrozen h a then Inl TypeError else Inr (store h a (arrayWrite es ps k v)))
      | _ \<Rightarrow> Inl TypeError)"

text \<open>\<^verbatim>\<open>Array.isArray(values)\<close> for an argument that is absent or a reference.\<close>

definition isArray :: "heap \<Rightarrow> addr option \<Rightarrow> bool" where
  "isArray h v =
     (case v of
        None \<Rightarrow> False
      | Some a \<Rightarrow> (case objAt h a of Some (ArrayObj es ps) \<Rightarrow> True | _ \<Rightarrow> False))"

subsection \<open>Property access on instances\<close>

text \<open>
  \<^verbatim>\<open>matrix.values\<close>.  On an object of another class the property is \<^verbatim>\<open>undefined\<close> and
  the element access that follows it in every operation throws; the model reports the
  \<^verbatim>\<open>TypeError\<close> at once.
\<close>

definition valuesOf :: "heap \<Rightarrow> addr \<Rightarrow> error + addr" where
  "valuesOf h m =
     (case objAt h m of
        Some (Matrix2Obj va) \<Rightarrow> Inr va
      | _ \<Rightarrow> Inl TypeError)"

text \<open>\<^verbatim>\<open>matrix.values[k]\<close> as an expression, and \<^verbatim>\<open>result.values[k] = v\<close> as a statement.\<close>

definition matrixValue :: "heap \<Rightarrow> addr \<Rightarrow> jsnum \<Rightarrow> error + jsval" where
  "matrixValue h m k = bindE (valuesOf h m) (\<lambda>mv. elemGet h mv k)"

definition setResultValue :: "heap \<Rightarrow> addr \<Rightarrow> jsnum \<Rightarrow> jsval \<Rightarrow> error + heap" where
  "setResultValue h res k v = bindE (valuesOf h res) (\<lambda>rv. elemSet h rv k v)"

text \<open>
  Modelled from the spec: the companion vector type \<^verbatim>\<open>Cartesian2\<close> (module
  \<^verbatim>\<open>./Cartesian2\<close>, not part of the sources at hand), which the spec describes as an
  ordered pair of two coordinates that is constructed with \<open>(x, y)\<close> and read and written
  through \<^verbatim>\<open>.x\<close> and \<^verbatim>\<open>.y\<close>.  An object of another class in its place is outside the
  typed interface and is reported as a \<^verbatim>\<open>TypeError\<close>.
\<close>

definition newCartesian2 :: "heap \<Rightarrow> jsval \<Rightarrow> jsval \<Rightarrow> addr \<times> heap" where
  "newCartesian2 h x y = alloc h (Cartesian2Obj x y)"

definition getX :: "heap \<Rightarrow> addr \<Rightarrow> error + jsval" where
  "getX h c =
     (case objAt h c of
        Some (Cartesian2Obj x y) \<Rightarrow> Inr x
      | _ \<Rightarrow> Inl TypeError)"

definition getY :: "heap \<Rightarrow> addr \<Rightarrow> error + jsval" where
  "getY h c =
     (case objAt h c of
        Some (Cartesian2Obj x y) \<Rightarrow> Inr y
      | _ \<Rightarrow> Inl TypeError)"

definition setX :: "heap \<Rightarrow> addr \<Rightarrow> jsval \<Rightarrow> error + heap" where
  "setX h c v =
     (case objAt h c of
        Some (Cartesian2Obj x y) \<Rightarrow>
          (if isFrozen h c then Inl TypeError else Inr (store h c (Cartesian2Obj v y)))
      | _ \<Rightarrow> Inl TypeError)"

definition setY :: "heap \<Rightarrow> addr \<Rightarrow> jsval \<Rightarrow> error + heap" where
  "setY h c v =
     (case objAt h c of
        Some (Cartesian2Obj x y) \<Rightarrow>
          (if isFrozen h c then Inl TypeError else Inr (store h c (Cartesian2Obj x v)))
      | _ \<Rightarrow> Inl TypeError)"

section \<open>The operations of Matrix2\<close>

text \<open>
  Every operation takes the heap and returns an error or its result with the heap it
  leaves.  An argument that is a matrix, a vector, an array or the optional \<^verbatim>\<open>result\<close>
  is absent (\<open>None\<close>, the caller passed \<^verbatim>\<open>undefined\<close>) or a reference; an index, a
  scalar, an epsilon and a component is a value.
\<close>

subsection \<open>Construction\<close>

text \<open>The constructor: \<^verbatim>\<open>new Matrix2(values)\<close>.\<close>

definition newMatrix2 :: "heap \<Rightarrow> addr option \<Rightarrow> error + (addr \<times> heap)" where
  "newMatrix2 h vals =
     (case vals of
        None \<Rightarrow>
          (case alloc h (ArrayObj [Num (Fin 0), Num (Fin 0), Num (Fin 0), Num (Fin 0)] []) of
             (a, h1) \<Rightarrow> Inr (alloc h1 (Matrix2Obj a)))
      | Some a \<Rightarrow>
          (if isArray h (Some a) then Inr (alloc h (Matrix2Obj a))
           else Inl (DeveloperError ''values must be an array'')))"

text \<open>\<^verbatim>\<open>new Matrix2([a, b, c, d])\<close>: the array literal is allocated, then the instance.\<close>

definition newMatrix2Of :: "heap \<Rightarrow> jsval list \<Rightarrow> error + (addr \<times> heap)" where
  "newMatrix2Of h es = (case alloc h (ArrayObj es []) of (a, h1) \<Rightarrow> newMatrix2 h1 (Some a))"

definition fromComponents ::
  "heap \<Rightarrow> jsval \<Rightarrow> jsval \<Rightarrow> jsval \<Rightarrow> jsval \<Rightarrow> addr option \<Rightarrow> error + (addr \<times> heap)" where
  "fromComponents h column0Row0 column1Row0 column0Row1 column1Row1 result =
     (case result of
        None \<Rightarrow> newMatrix2Of h [column0Row0, column1Row0, column0Row1, column1Row1]
      | Some res \<Rightarrow>
          bindE (setResultValue h res (Fin 0) column0Row0) (\<lambda>h1.
          bindE (setResultValue h1 res (Fin 1) column1Row0) (\<lambda>h2.
          bindE (setResultValue h2 res (Fin 2) column0Row1) (\<lambda>h3.
          bindE (setResultValue h3 res (Fin 3) column1Row1) (\<lambda>h4.
          Inr (res, h4))))))"

definition fromRowMajorArray ::
  "heap \<Rightarrow> addr option \<Rightarrow> addr option \<Rightarrow> error + (addr \<times> heap)" where
  "fromRowMajorArray h vals result =
     (case vals of
        None \<Rightarrow> Inl (DeveloperError ''values must be an array'')
      | Some va \<Rightarrow>
          (if isArray h (Some va) then
             (case result of
                None \<Rightarrow>
                  bindE (elemGet h va (Fin 0)) (\<lambda>v0.
                  bindE (elemGet h va (Fin 2)) (\<lambda>v2.
                  bindE (elemGet h va (Fin 1)) (\<lambda>v1.
                  bindE (elemGet h va (Fin 3)) (\<lambda>v3.
                  newMatrix2Of h [v0, v2, v1, v3]))))
              | Some res \<Rightarrow>
                  bindE (elemGet h va (Fin 0)) (\<lambda>v0.
                  bindE (setResultValue h res (Fin 0) v0) (\<lambda>h1.
                  bindE (elemGet h1 va (Fin 2)) (\<lambda>v2.
                  bindE (setResultValue h1 res (Fin 1) v2) (\<lambda>h2.
                  bindE (elemGet h2 va (Fin 1)) (\<lambda>v1.
                  bindE (setResultValue h2 res (Fin 2) v1) (\<lambda>h3.
                  bindE (elemGet h3 va (Fin 3)) (\<lambda>v3.
                  bindE (setResultValue h3 res (Fin 3) v3) (\<lambda>h4.
                  Inr (res, h4))))))))))
           else Inl (DeveloperError ''values must be an array'')))"

text \<open>\<^verbatim>\<open>values.slice(0)\<close>: a fresh array with the indexed elements of the old one.\<close>

definition slice0 :: "heap \<Rightarrow> addr \<Rightarrow> error + (addr \<times> heap)" where
  "slice0 h a =
     (case objAt h a of
        Some (ArrayObj es ps) \<Rightarrow> Inr (alloc h (ArrayObj es []))
      | _ \<Rightarrow> Inl TypeError)"

definition clone :: "heap \<Rightarrow> addr option \<Rightarrow> addr option \<Rightarrow> error + (addr \<times> heap)" where
  "clone h matrix result =
     (case matrix of
        None \<Rightarrow> Inl (DeveloperError ''matrix is required'')
      | Some m \<Rightarrow>
          (case result of
             None \<Rightarrow>
               bindE (valuesOf h m) (\<lambda>mv.
               bindE (slice0 h mv) (\<lambda>(a, h1). newMatrix2 h1 (Some a)))
           | Some res \<Rightarrow>
               bindE (valuesOf h m) (\<lambda>vs.
               bindE (valuesOf h res) (\<lambda>resultValues.
               bindE (elemGet h vs (Fin 0)) (\<lambda>v0.
               bindE (elemSet h resultValues (Fin 0) v0) (\<lambda>h1.
               bindE (elemGet h1 vs (Fin 1)) (\<lambda>v1.
               bindE (elemSet h1 resultValues (Fin 1) v1) (\<lambda>h2.
               bindE (elemGet h2 vs (Fin 2)) (\<lambda>v2.
               bindE (elemSet h2 resultValues (Fin 2) v2) (\<lambda>h3.
               bindE (elemGet h3 vs (Fin 3)) (\<lambda>v3.
               bindE (elemSet h3 resultValues (Fin 3) v3) (\<lambda>h4.
               Inr (res, h4)))))))))))))"

subsection \<open>Rows and columns\<close>

text \<open>The guard \<^verbatim>\<open>typeof index !== 'number' || index < 0 || index > 1\<close>.\<close>

definition badIndex :: "jsval \<Rightarrow> bool" where
  "badIndex index =
     (case index of
        Undefined \<Rightarrow> True
      | Num n \<Rightarrow> jsLt n (Fin 0) \<or> jsLt (Fin 1) n)"

definition getColumn ::
  "heap \<Rightarrow> addr option \<Rightarrow> jsval \<Rightarrow> addr option \<Rightarrow> error + (addr \<times> heap)" where
  "getColumn h matrix index result =
     (case matrix of
        None \<Rightarrow> Inl (DeveloperError ''matrix is required.'')
      | Some m \<Rightarrow>
          (if badIndex index
           then Inl (DeveloperError ''index is required and must be 0 or 1.'')
           else
             (let startIndex = toNumber index in
              bindE (matrixValue h m startIndex) (\<lambda>x.
              bindE (matrixValue h m (jsAdd startIndex (Fin 2))) (\<lambda>y.
              (case result of
                 None \<Rightarrow> Inr (newCartesian2 h x y)
               | Some res \<Rightarrow>
                   bindE (setX h res x) (\<lambda>h1.
                   bindE (setY h1 res y) (\<lambda>h2.
                   Inr (res, h2)))))))))"

definition setColumn ::
  "heap \<Rightarrow> addr option \<Rightarrow> jsval \<Rightarrow> addr option \<Rightarrow> addr option \<Rightarrow> error + (addr \<times> heap)" where
  "setColumn h matrix index cartesian result =
     (case matrix of
        None \<Rightarrow> Inl (DeveloperError ''matrix is required'')
      | Some m \<Rightarrow>
          (case cartesian of
             None \<Rightarrow> Inl (DeveloperError ''cartesian is required'')
           | Some c \<Rightarrow>
               (if badIndex index
                then Inl (DeveloperError ''index is required and must be 0 or 1.'')
                else
                  bindE (clone h (Some m) result) (\<lambda>(res, h1).
                  (let startIndex = toNumber index in
                   bindE (getX h1 c) (\<lambda>x.
                   bindE (setResultValue h1 res startIndex x) (\<lambda>h2.
                   bindE (getY h2 c) (\<lambda>y.
                   bindE (setResultValue h2 res (jsAdd startIndex (Fin 2)) y) (\<lambda>h3.
                   Inr (res, h3))))))))))"

definition getRow ::
  "heap \<Rightarrow> addr option \<Rightarrow> jsval \<Rightarrow> addr option \<Rightarrow> error + (addr \<times> heap)" where
  "getRow h matrix index result =
     (case matrix of
        None \<Rightarrow> Inl (DeveloperError ''matrix is required.'')
      | Some m \<Rightarrow>
          (if badIndex index
           then Inl (DeveloperError ''index is required and must be 0 or 1.'')
           else
             (let startIndex = jsMul (toNumber index) (Fin 2) in
              bindE (matrixValue h m startIndex) (\<lambda>x.
              bindE (matrixValue h m (jsAdd startIndex (Fin 1))) (\<lambda>y.
              (case result of
                 None \<Rightarrow> Inr (newCartesian2 h x y)
               | Some res \<Rightarrow>
                   bindE (setX h res x) (\<lambda>h1.
                   bindE (setY h1 res y) (\<lambda>h2.
                   Inr (res, h2)))))))))"

definition setRow ::
  "heap \<Rightarrow> addr option \<Rightarrow> jsval \<Rightarrow> addr option \<Rightarrow> addr option \<Rightarrow> error + (addr \<times> heap)" where
  "setRow h matrix index cartesian result =
     (case matrix of
        None \<Rightarrow> Inl (DeveloperError ''matrix is required'')
      | Some m \<Rightarrow>
          (case cartesian of
             None \<Rightarrow> Inl (DeveloperError ''cartesian is required'')
           | Some c \<Rightarrow>
               (if badIndex index
                then Inl (DeveloperError ''index is required and must be 0 or 1.'')
                else
                  (let startIndex = jsMul (toNumber index) (Fin 2) in
                   bindE (clone h (Some m) result) (\<lambda>(res, h1).
                   bindE (getX h1 c) (\<lambda>x.
                   bindE (setResultValue h1 res startIndex x) (\<lambda>h2.
                   bindE (getY h2 c) (\<lambda>y.
                   bindE (setResultValue h2 res (jsAdd startIndex (Fin 1)) y) (\<lambda>h3.
                   Inr (res, h3))))))))))"

subsection \<open>Arithmetic\<close>

text \<open>
  Where an operation reads all its operands before it writes (\<^verbatim>\<open>var leftValues =
  left.values\<close> and the cached products that follow), the reads go through the read
  function of the array as it stands in the heap at that point.
\<close>

definition arrayOf :: "heap \<Rightarrow> addr \<Rightarrow> error + (jsnum \<Rightarrow> jsval)" where
  "arrayOf h a =
     (case objAt h a of
        Some (ArrayObj es ps) \<Rightarrow> Inr (arrayRead es ps)
      | _ \<Rightarrow> Inl TypeError)"

text \<open>The four assignments \<^verbatim>\<open>resultValues[0] = a; ... resultValues[3] = d\<close>.\<close>

definition setFour ::
  "heap \<Rightarrow> addr \<Rightarrow> jsval \<Rightarrow> jsval \<Rightarrow> jsval \<Rightarrow> jsval \<Rightarrow> error + heap" where
  "setFour h resultValues a b c d =
     bindE (elemSet h resultValues (Fin 0) a) (\<lambda>h1.
     bindE (elemSet h1 resultValues (Fin 1) b) (\<lambda>h2.
     bindE (elemSet h2 resultValues (Fin 2) c) (\<lambda>h3.
     elemSet h3 resultValues (Fin 3) d)))"

definition multiply ::
  "heap \<Rightarrow> addr option \<Rightarrow> addr option \<Rightarrow> addr option \<Rightarrow> error + (addr \<times> heap)" where
  "multiply h left right result =
     (case left of
        None \<Rightarrow> Inl (DeveloperError ''left is required'')
      | Some l \<Rightarrow>
          (case right of
             None \<Rightarrow> Inl (DeveloperError ''right is required'')
           | Some r \<Rightarrow>
               bindE (valuesOf h l) (\<lambda>lv.
               bindE (valuesOf h r) (\<lambda>rv.
               bindE (arrayOf h lv) (\<lambda>leftValues.
               bindE (arrayOf h rv) (\<lambda>rightValues.
               (let column0Row0 = addV (mulV (leftValues (Fin 0)) (rightValues (Fin 0)))
                                       (mulV (leftValues (Fin 1)) (rightValues (Fin 2)));
                    column1Row0 = addV (mulV (leftValues (Fin 0)) (rightValues (Fin 1)))
                                       (mulV (leftValues (Fin 1)) (rightValues (Fin 3)));
                    column0Row1 = addV (mulV (leftValues (Fin 2)) (rightValues (Fin 0)))
                                       (mulV (leftValues (Fin 3)) (rightValues (Fin 2)));
                    column1Row1 = addV (mulV (leftValues (Fin 2)) (rightValues (Fin 1)))
                                       (mulV (leftValues (Fin 3)) (rightValues (Fin 3)))
                in
                (case result of
                   None \<Rightarrow> newMatrix2Of h [column0Row0, column1Row0, column0Row1, column1Row1]
                 | Some res \<Rightarrow>
                     bindE (valuesOf h res) (\<lambda>resultValues.
                     bindE (setFour h resultValues
                              column0Row0 column1Row0 column0Row1 column1Row1) (\<lambda>h4.
                     Inr (res, h4)))))))))))"

definition multiplyByVector ::
  "heap \<Rightarrow> addr option \<Rightarrow> addr option \<Rightarrow> addr option \<Rightarrow> error + (addr \<times> heap)" where
  "multiplyByVector h matrix cartesian result =
     (case matrix of
        None \<Rightarrow> Inl (DeveloperError ''matrix is required'')
      | Some m \<Rightarrow>
          (case cartesian of
             None \<Rightarrow> Inl (DeveloperError ''cartesian is required'')
           | Some c \<Rightarrow>
               bindE (valuesOf h m) (\<lambda>mv.
               bindE (arrayOf h mv) (\<lambda>matrixValues.
               bindE (getX h c) (\<lambda>cx.
               bindE (getY h c) (\<lambda>cy.
               (let x = addV (mulV (matrixValues (Fin 0)) cx) (mulV (matrixValues (Fin 1)) cy);
                    y = addV (mulV (matrixValues (Fin 2)) cx) (mulV (matrixValues (Fin 3)) cy)
                in
                (case result of
                   None \<Rightarrow> Inr (newCartesian2 h x y)
                 | Some res \<Rightarrow>
                     bindE (setX h res x) (\<lambda>h1.
                     bindE (setY h1 res y) (\<lambda>h2.
                     Inr (res, h2)))))))))))"

definition multiplyByScalar ::
  "heap \<Rightarrow> addr option \<Rightarrow> jsval \<Rightarrow> addr option \<Rightarrow> error + (addr \<times> heap)" where
  "multiplyByScalar h matrix scalar result =
     (case matrix of
        None \<Rightarrow> Inl (DeveloperError ''matrix is required'')
      | Some m \<Rightarrow>
          (case scalar of
             Undefined \<Rightarrow> Inl (DeveloperError ''scalar is required and must be a number'')
           | Num s \<Rightarrow>
               bindE (valuesOf h m) (\<lambda>matrixValues.
               (case result of
                  None \<Rightarrow>
                    bindE (arrayOf h matrixValues) (\<lambda>mvs.
                    newMatrix2Of h [mulV (mvs (Fin 0)) scalar, mulV (mvs (Fin 1)) scalar,
                                    mulV (mvs (Fin 2)) scalar, mulV (mvs (Fin 3)) scalar])
                | Some res \<Rightarrow>
                    bindE (valuesOf h res) (\<lambda>resultValues.
                    bindE (elemGet h matrixValues (Fin 0)) (\<lambda>v0.
                    bindE (elemSet h resultValues (Fin 0) (mulV v0 scalar)) (\<lambda>h1.
                    bindE (elemGet h1 matrixValues (Fin 1)) (\<lambda>v1.
                    bindE (elemSet h1 resultValues (Fin 1) (mulV v1 scalar)) (\<lambda>h2.
                    bindE (elemGet h2 matrixValues (Fin 2)) (\<lambda>v2.
                    bindE (elemSet h2 resultValues (Fin 2) (mulV v2 scalar)) (\<lambda>h3.
                    bindE (elemGet h3 matrixValues (Fin 3)) (\<lambda>v3.
                    bindE (elemSet h3 resultValues (Fin 3) (mulV v3 scalar)) (\<lambda>h4.
                    Inr (res, h4))))))))))))))"

definition negate :: "heap \<Rightarrow> addr option \<Rightarrow> addr option \<Rightarrow> error + (addr \<times> heap)" where
  "negate h matrix result =
     (case matrix of
        None \<Rightarrow> Inl (DeveloperError ''matrix is required'')
      | Some m \<Rightarrow>
          bindE (valuesOf h m) (\<lambda>matrixValues.
          (case result of
             None \<Rightarrow>
               bindE (arrayOf h matrixValues) (\<lambda>mvs.
               newMatrix2Of h [negV (mvs (Fin 0)), negV (mvs (Fin 1)),
                               negV (mvs (Fin 2)), negV (mvs (Fin 3))])
           | Some res \<Rightarrow>
               bindE (valuesOf h res) (\<lambda>resultValues.
               bindE (elemGet h matrixValues (Fin 0)) (\<lambda>v0.
               bindE (elemSet h resultValues (Fin 0) (negV v0)) (\<lambda>h1.
               bindE (elemGet h1 matrixValues (Fin 1)) (\<lambda>v1.
               bindE (elemSet h1 resultValues (Fin 1) (negV v1)) (\<lambda>h2.
               bindE (elemGet h2 matrixValues (Fin 2)) (\<lambda>v2.
               bindE (elemSet h2 resultValues (Fin 2) (negV v2)) (\<lambda>h3.
               bindE (elemGet h3 matrixValues (Fin 3)) (\<lambda>v3.
               bindE (elemSet h3 resultValues (Fin 3) (negV v3)) (\<lambda>h4.
               Inr (res, h4)))))))))))))"

definition transpose :: "heap \<Rightarrow> addr option \<Rightarrow> addr option \<Rightarrow> error + (addr \<times> heap)" where
  "transpose h matrix result =
     (case matrix of
        None \<Rightarrow> Inl (DeveloperError ''matrix is required'')
      | Some m \<Rightarrow>
          bindE (valuesOf h m) (\<lambda>mv.
          bindE (arrayOf h mv) (\<lambda>matrixValues.
          (let column0Row0 = matrixValues (Fin 0);
               column1Row0 = matrixValues (Fin 2);
               column0Row1 = matrixValues (Fin 1);
               column1Row1 = matrixValues (Fin 3)
           in
           (case result of
              None \<Rightarrow> newMatrix2Of h [column0Row0, column1Row0, column0Row1, column1Row1]
            | Some res \<Rightarrow>
                bindE (valuesOf h res) (\<lambda>resultValues.
                bindE (setFour h resultValues
                         column0Row0 column1Row0 column0Row1 column1Row1) (\<lambda>h4.
                Inr (res, h4))))))))"

subsection \<open>Comparison and formatting\<close>

text \<open>\<^verbatim>\<open>left === right\<close> on two arguments is the equality of the references (or both
  absent).\<close>

definition equals :: "heap \<Rightarrow> addr option \<Rightarrow> addr option \<Rightarrow> error + bool" where
  "equals h left right =
     (if left = right then Inr True
      else
        (case left of
           None \<Rightarrow> Inr False
         | Some l \<Rightarrow>
             (case right of
                None \<Rightarrow> Inr False
              | Some r \<Rightarrow>
                  bindE (valuesOf h l) (\<lambda>lv.
                  bindE (valuesOf h r) (\<lambda>rv.
                  bindE (arrayOf h lv) (\<lambda>leftValues.
                  bindE (arrayOf h rv) (\<lambda>rightValues.
                  Inr (strictEq (leftValues (Fin 0)) (rightValues (Fin 0)) \<and>
                       strictEq (leftValues (Fin 1)) (rightValues (Fin 1)) \<and>
                       strictEq (leftValues (Fin 2)) (rightValues (Fin 2)) \<and>
                       strictEq (leftValues (Fin 3)) (rightValues (Fin 3))))))))))"

definition equalsEpsilon ::
  "heap \<Rightarrow> addr option \<Rightarrow> addr option \<Rightarrow> jsval \<Rightarrow> error + bool" where
  "equalsEpsilon h left right epsilon =
     (case epsilon of
        Undefined \<Rightarrow> Inl (DeveloperError ''epsilon is required and must be a number'')
      | Num eps \<Rightarrow>
          (if left = right then Inr True
           else
             (case left of
                None \<Rightarrow> Inr False
              | Some l \<Rightarrow>
                  (case right of
                     None \<Rightarrow> Inr False
                   | Some r \<Rightarrow>
                       bindE (valuesOf h l) (\<lambda>lv.
                       bindE (valuesOf h r) (\<lambda>rv.
                       bindE (arrayOf h lv) (\<lambda>leftValues.
                       bindE (arrayOf h rv) (\<lambda>rightValues.
                       Inr (jsLe (absDiffV (leftValues (Fin 0)) (rightValues (Fin 0))) eps \<and>
                            jsLe (absDiffV (leftValues (Fin 1)) (rightValues (Fin 1))) eps \<and>
                            jsLe (absDiffV (leftValues (Fin 2)) (rightValues (Fin 2))) eps \<and>
                            jsLe (absDiffV (leftValues (Fin 3)) (rightValues (Fin 3))) eps)))))))))"

text \<open>
  The conversion of a value to a string, as string concatenation applies it.  An
  integer of magnitude below \<open>10^21\<close> prints as its decimal digits.  The printing of the
  other finite numbers belongs to the host language and depends on the double
  representation; it is the parameter \<open>fmt\<close>.
\<close>

fun digitsOf :: "nat \<Rightarrow> string" where
  "digitsOf n =
     (if n < 10 then [''0123456789'' ! n]
      else digitsOf (n div 10) @ [''0123456789'' ! (n mod 10)])"

definition numberToString :: "(real \<Rightarrow> string) \<Rightarrow> jsnum \<Rightarrow> string" where
  "numberToString fmt n =
     (case n of
        NaN \<Rightarrow> ''NaN''
      | PInf \<Rightarrow> ''Infinity''
      | NInf \<Rightarrow> ''-Infinity''
      | Fin r \<Rightarrow>
          (if r = of_int \<lfloor>r\<rfloor> \<and> \<bar>r\<bar> < 10 ^ 21
           then (if r < 0 then ''-'' @ digitsOf (nat \<lfloor>- r\<rfloor>) else digitsOf (nat \<lfloor>r\<rfloor>))
           else fmt r))"

definition valueToString :: "(real \<Rightarrow> string) \<Rightarrow> jsval \<Rightarrow> string" where
  "valueToString fmt v =
     (case v of
        Undefined \<Rightarrow> ''undefined''
      | Num n \<Rightarrow> numberToString fmt n)"

definition toString :: "(real \<Rightarrow> string) \<Rightarrow> heap \<Rightarrow> addr option \<Rightarrow> error + string" where
  "toString fmt h matrix =
     (case matrix of
        None \<Rightarrow> Inl (DeveloperError ''matrix is required'')
      | Some m \<Rightarrow>
          bindE (matrixValue h m (Fin 0)) (\<lambda>v0.
          bindE (matrixValue h m (Fin 1)) (\<lambda>v1.
          bindE (matrixValue h m (Fin 2)) (\<lambda>v2.
          bindE (matrixValue h m (Fin 3)) (\<lambda>v3.
          Inr (''('' @ valueToString fmt v0 @ '', '' @ valueToString fmt v1 @ '')\<newline>'' @
               ''('' @ valueToString fmt v2 @ '', '' @ valueToString fmt v3 @ '')''))))))"

subsection \<open>The identity constant\<close>

text \<open>
  Loading the module evaluates
  \<^verbatim>\<open>Matrix2.IDENTITY = Object.freeze(Matrix2.fromComponents(1.0, 0.0, 0.0, 1.0))\<close>
  on the empty heap.
\<close>

definition moduleInit :: "error + (addr \<times> heap)" where
  "moduleInit =
     bindE (fromComponents [] (Num (Fin 1)) (Num (Fin 0)) (Num (Fin 0)) (Num (Fin 1)) None)
       (\<lambda>(m, h). Inr (m, objectFreeze h m))"

definition IDENTITY :: addr where
  "IDENTITY = 1"

definition initialHeap :: heap where
  "initialHeap =
     [\<lparr>body = ArrayObj [Num (Fin 1), Num (Fin 0), Num (Fin 0), Num (Fin 1)] [], frozen = False\<rparr>,
      \<lparr>body = Matrix2Obj 0, frozen = True\<rparr>]"

section \<open>Observing instances\<close>

text \<open>The four components of the matrix at a reference: what \<^verbatim>\<open>m.values[0]\<close> to
  \<^verbatim>\<open>m.values[3]\<close> read.  \<open>None\<close> when the reference is not a matrix over an array.\<close>

definition components :: "heap \<Rightarrow> addr \<Rightarrow> jsval list option" where
  "components h m =
     (case objAt h m of
        Some (Matrix2Obj va) \<Rightarrow>
          (case objAt h va of
             Some (ArrayObj es ps) \<Rightarrow>
               Some [arrayRead es ps (Fin 0), arrayRead es ps (Fin 1),
                     arrayRead es ps (Fin 2), arrayRead es ps (Fin 3)]
           | _ \<Rightarrow> None)
      | _ \<Rightarrow> None)"

text \<open>The two coordinates of the vector at a reference.\<close>

definition coordinates :: "heap \<Rightarrow> addr \<Rightarrow> (jsval \<times> jsval) option" where
  "coordinates h c =
     (case objAt h c of
        Some (Cartesian2Obj x y) \<Rightarrow> Some (x, y)
      | _ \<Rightarrow> None)"

text \<open>A matrix that can serve as \<^verbatim>\<open>result\<close>: an instance over an array that is not
  frozen.\<close>

definition writableMatrix :: "heap \<Rightarrow> addr \<Rightarrow> bool" where
  "writableMatrix h m =
     (case objAt h m of
        Some (Matrix2Obj va) \<Rightarrow>
          (case objAt h va of
             Some (ArrayObj es ps) \<Rightarrow> isFrozen h va = False
           | _ \<Rightarrow> False)
      | _ \<Rightarrow> False)"

text \<open>The elements of an array after the four writes at the indices 0 to 3.\<close>

definition writeFour :: "jsval list \<Rightarrow> jsval \<Rightarrow> jsval \<Rightarrow> jsval \<Rightarrow> jsval \<Rightarrow> jsval list" where
  "writeFour es a b c d = writeElem (writeElem (writeElem (writeElem es 0 a) 1 b) 2 c) 3 d"

text \<open>A value that is a finite number.\<close>

fun finiteV :: "jsval \<Rightarrow> bool" where
  "finiteV (Num (Fin r)) = True"
| "finiteV v = False"

text \<open>The heap after the module is loaded and
  \<^verbatim>\<open>var a = Matrix2.fromComponents(1, 2, 3, 4)\<close> and
  \<^verbatim>\<open>var b = Matrix2.fromComponents(5, 6, 7, 8)\<close> have run: \<open>IDENTITY\<close> is the
  reference 1, \<open>a\<close> the reference 3 over the array 2, and \<open>b\<close> the reference 5.\<close>

definition sampleHeap :: heap where
  "sampleHeap =
     [\<lparr>body = ArrayObj [Num (Fin 1), Num (Fin 0), Num (Fin 0), Num (Fin 1)] [], frozen = False\<rparr>,
      \<lparr>body = Matrix2Obj 0, frozen = True\<rparr>,
      \<lparr>body = ArrayObj [Num (Fin 1), Num (Fin 2), Num (Fin 3), Num (Fin 4)] [], frozen = False\<rparr>,
      \<lparr>body = Matrix2Obj 2, frozen = False\<rparr>,
      \<lparr>body = ArrayObj [Num (Fin 5), Num (Fin 6), Num (Fin 7), Num (Fin 8)] [], frozen = False\<rparr>,
      \<lparr>body = Matrix2Obj 4, frozen = False\<rparr>]"

text \<open>An argument that is absent or a matrix over an array.\<close>

definition matrixOrAbsent :: "heap \<Rightarrow> addr option \<Rightarrow> bool" where
  "matrixOrAbsent h x =
     (case x of
        None \<Rightarrow> True
      | Some a \<Rightarrow> (case components h a of None \<Rightarrow> False | Some cs \<Rightarrow> True))"

text \<open>One line of the string form: a row in parentheses, its two values separated by a
  comma and a space.\<close>

definition rowText :: "(real \<Rightarrow> string) \<Rightarrow> jsval \<Rightarrow> jsval \<Rightarrow> string" where
  "rowText fmt x y = ''('' @ valueToString fmt x @ '', '' @ valueToString fmt y @ '')''"

text \<open>A result that is not the module's own error \<^verbatim>\<open>DeveloperError\<close>.\<close>

definition noDeveloperError :: "error + 'a \<Rightarrow> bool" where
  "noDeveloperError x =
     (case x of
        Inl e \<Rightarrow> (case e of DeveloperError msg \<Rightarrow> False | TypeError \<Rightarrow> True)
      | Inr y \<Rightarrow> True)"

text \<open>A vector that can serve as \<^verbatim>\<open>result\<close>: an instance that is not frozen.\<close>

definition writableVector :: "heap \<Rightarrow> addr \<Rightarrow> bool" where
  "writableVector h v =
     (case objAt h v of
        Some (Cartesian2Obj x y) \<Rightarrow> isFrozen h v = False
      | _ \<Rightarrow> False)"

text \<open>The sample heap after \<^verbatim>\<open>var v = new Cartesian2(9, 10)\<close>: \<open>v\<close> is the reference 6.\<close>

definition vectorHeap :: heap where
  "vectorHeap = sampleHeap @ [\<lparr>body = Cartesian2Obj (Num (Fin 9)) (Num (Fin 10)), frozen = False\<rparr>]"

section \<open>Basic facts\<close>

lemma isIndex_small [simp]: "isIndex 0" "isIndex 1" "isIndex 2" "isIndex 3"
  by (simp_all add: isIndex_def)

lemma bindE_Inr [simp]: "bindE (Inr x) f = f x"
  by (simp add: bindE_def)

lemma bindE_Inl [simp]: "bindE (Inl e) f = Inl e"
  by (simp add: bindE_def)

lemma objAt_store:
  "objAt (store h a ob) b = (if b = a \<and> a < length h then Some ob else objAt h b)"
  by (simp add: objAt_def store_def nth_list_update)

lemma isFrozen_store [simp]: "isFrozen (store h a ob) b = isFrozen h b"
  by (cases "a = b") (auto simp: isFrozen_def store_def)

lemma store_store [simp]: "store (store h a x) a y = store h a y"
  by (cases "a < length h") (simp_all add: store_def list_update_beyond)

lemma objAt_Some_less: "objAt h a = Some ob \<Longrightarrow> a < length h"
  by (simp add: objAt_def split: if_splits)

lemma objAt_append: "objAt h a = Some ob \<Longrightarrow> objAt (h @ h') a = Some ob"
  by (simp add: objAt_def nth_append split: if_splits)

lemma newMatrix2Of_eq:
  "newMatrix2Of h es =
     Inr (Suc (length h),
          h @ [\<lparr>body = ArrayObj es [], frozen = False\<rparr>,
               \<lparr>body = Matrix2Obj (length h), frozen = False\<rparr>])"
  by (simp add: newMatrix2Of_def newMatrix2_def alloc_def isArray_def objAt_def)

lemma fromComponents_new:
  "fromComponents h a b c d None =
     Inr (Suc (length h),
          h @ [\<lparr>body = ArrayObj [a, b, c, d] [], frozen = False\<rparr>,
               \<lparr>body = Matrix2Obj (length h), frozen = False\<rparr>])"
  by (simp add: fromComponents_def newMatrix2Of_eq)

subsection \<open>Components\<close>

lemma componentsD:
  assumes "components h m = Some cs"
  obtains va es ps where "objAt h m = Some (Matrix2Obj va)"
    and "objAt h va = Some (ArrayObj es ps)"
    and "cs = [arrayRead es ps (Fin 0), arrayRead es ps (Fin 1),
               arrayRead es ps (Fin 2), arrayRead es ps (Fin 3)]"
  using assms
  by (auto simp: components_def split: option.splits obj.splits)

lemma components_fresh:
  "components (h @ [\<lparr>body = ArrayObj [a, b, c, d] [], frozen = False\<rparr>,
                    \<lparr>body = Matrix2Obj (length h), frozen = False\<rparr>]) (Suc (length h))
   = Some [a, b, c, d]"
  by (simp add: components_def objAt_def nth_append)

lemma components_mono:
  assumes "components h m = Some cs"
  shows "components (h @ h') m = Some cs"
proof -
  from assms obtain va es ps where "objAt h m = Some (Matrix2Obj va)"
    and "objAt h va = Some (ArrayObj es ps)"
    and "cs = [arrayRead es ps (Fin 0), arrayRead es ps (Fin 1),
               arrayRead es ps (Fin 2), arrayRead es ps (Fin 3)]"
    by (rule componentsD)
  then show ?thesis
    by (simp add: components_def objAt_append)
qed

lemma components_less: "components h m = Some cs \<Longrightarrow> m < length h"
  by (auto simp: components_def objAt_def split: option.splits if_splits)

lemma writableMatrixD:
  assumes "writableMatrix h m"
  obtains va es ps where "objAt h m = Some (Matrix2Obj va)"
    and "objAt h va = Some (ArrayObj es ps)" and "\<not> isFrozen h va"
proof -
  from assms obtain va where m: "objAt h m = Some (Matrix2Obj va)"
    by (cases "objAt h m") (auto simp: writableMatrix_def split: obj.splits)
  with assms obtain es ps where "objAt h va = Some (ArrayObj es ps)" and "\<not> isFrozen h va"
    by (cases "objAt h va") (auto simp: writableMatrix_def split: obj.splits)
  with m that show thesis by blast
qed

subsection \<open>The four writes\<close>

lemma arrayWrite_small:
  "arrayWrite es ps (Fin 0) v = ArrayObj (writeElem es 0 v) ps"
  "arrayWrite es ps (Fin 1) v = ArrayObj (writeElem es 1 v) ps"
  "arrayWrite es ps (Fin 2) v = ArrayObj (writeElem es 2 v) ps"
  "arrayWrite es ps (Fin 3) v = ArrayObj (writeElem es 3 v) ps"
  by simp_all

lemma writeFour_eq: "writeFour es a b c d = [a, b, c, d] @ drop 4 es"
proof (cases es)
  case Nil
  then show ?thesis by (simp add: writeFour_def writeElem_def)
next
  case (Cons e0 es0)
  note c0 = this
  show ?thesis
  proof (cases es0)
    case Nil
    with c0 show ?thesis by (simp add: writeFour_def writeElem_def)
  next
    case (Cons e1 es1)
    note c1 = this
    show ?thesis
    proof (cases es1)
      case Nil
      with c0 c1 show ?thesis by (simp add: writeFour_def writeElem_def)
    next
      case (Cons e2 es2)
      note c2 = this
      show ?thesis
      proof (cases es2)
        case Nil
        with c0 c1 c2 show ?thesis by (simp add: writeFour_def writeElem_def)
      next
        case (Cons e3 es3)
        with c0 c1 c2 show ?thesis by (simp add: writeFour_def writeElem_def)
      qed
    qed
  qed
qed

lemma arrayRead_writeFour:
  "arrayRead (writeFour es a b c d) ps (Fin 0) = a"
  "arrayRead (writeFour es a b c d) ps (Fin 1) = b"
  "arrayRead (writeFour es a b c d) ps (Fin 2) = c"
  "arrayRead (writeFour es a b c d) ps (Fin 3) = d"
  by (simp_all add: writeFour_eq)

lemma setFour_eq:
  assumes "objAt h a = Some (ArrayObj es ps)" and "\<not> isFrozen h a"
  shows "setFour h a v0 v1 v2 v3 = Inr (store h a (ArrayObj (writeFour es v0 v1 v2 v3) ps))"
proof -
  from assms(1) have "a < length h" by (rule objAt_Some_less)
  with assms show ?thesis
    by (simp add: setFour_def elemSet_def objAt_store arrayWrite_small writeFour_def
        del: arrayWrite.simps)
qed

lemma components_store:
  assumes "objAt h m = Some (Matrix2Obj va)" and "objAt h va = Some (ArrayObj es ps)"
  shows "components (store h va (ArrayObj (writeFour es a b c d) ps)) m = Some [a, b, c, d]"
proof -
  from assms(2) have "va < length h" by (rule objAt_Some_less)
  moreover from assms have "m \<noteq> va" by auto
  ultimately show ?thesis using assms
    by (simp add: components_def objAt_store arrayRead_writeFour del: arrayRead.simps)
qed

subsection \<open>The product\<close>

lemma multiply_new_eq:
  assumes L: "components h l = Some [l0, l1, l2, l3]"
    and R: "components h r = Some [r0, r1, r2, r3]"
  shows "multiply h (Some l) (Some r) None =
           Inr (Suc (length h),
                h @ [\<lparr>body = ArrayObj
                        [addV (mulV l0 r0) (mulV l1 r2), addV (mulV l0 r1) (mulV l1 r3),
                         addV (mulV l2 r0) (mulV l3 r2), addV (mulV l2 r1) (mulV l3 r3)] [],
                      frozen = False\<rparr>,
                     \<lparr>body = Matrix2Obj (length h), frozen = False\<rparr>])"
proof -
  from L obtain lv les lps where l: "objAt h l = Some (Matrix2Obj lv)"
    "objAt h lv = Some (ArrayObj les lps)"
    and lc: "[l0, l1, l2, l3] = [arrayRead les lps (Fin 0), arrayRead les lps (Fin 1),
               arrayRead les lps (Fin 2), arrayRead les lps (Fin 3)]"
    by (rule componentsD)
  from R obtain rv rvs rps where r: "objAt h r = Some (Matrix2Obj rv)"
    "objAt h rv = Some (ArrayObj rvs rps)"
    and rc: "[r0, r1, r2, r3] = [arrayRead rvs rps (Fin 0), arrayRead rvs rps (Fin 1),
               arrayRead rvs rps (Fin 2), arrayRead rvs rps (Fin 3)]"
    by (rule componentsD)
  from lc have lc': "arrayRead les lps (Fin 0) = l0" "arrayRead les lps (Fin 1) = l1"
    "arrayRead les lps (Fin 2) = l2" "arrayRead les lps (Fin 3) = l3" by simp_all
  from rc have rc': "arrayRead rvs rps (Fin 0) = r0" "arrayRead rvs rps (Fin 1) = r1"
    "arrayRead rvs rps (Fin 2) = r2" "arrayRead rvs rps (Fin 3) = r3" by simp_all
  show ?thesis
    by (simp add: multiply_def valuesOf_def arrayOf_def newMatrix2Of_eq
        Let_def l r lc' rc' del: arrayRead.simps)
qed

lemma multiply_new:
  assumes L: "components h l = Some [l0, l1, l2, l3]"
    and R: "components h r = Some [r0, r1, r2, r3]"
  shows "\<exists>m h'. multiply h (Some l) (Some r) None = Inr (m, h') \<and>
           components h' m =
             Some [addV (mulV l0 r0) (mulV l1 r2), addV (mulV l0 r1) (mulV l1 r3),
                   addV (mulV l2 r0) (mulV l3 r2), addV (mulV l2 r1) (mulV l3 r3)]"
  unfolding multiply_new_eq [OF L R] using components_fresh by blast

lemma multiply_into:
  assumes L: "components h l = Some [l0, l1, l2, l3]"
    and R: "components h r = Some [r0, r1, r2, r3]"
    and W: "writableMatrix h res"
  shows "\<exists>h'. multiply h (Some l) (Some r) (Some res) = Inr (res, h') \<and>
           components h' res =
             Some [addV (mulV l0 r0) (mulV l1 r2), addV (mulV l0 r1) (mulV l1 r3),
                   addV (mulV l2 r0) (mulV l3 r2), addV (mulV l2 r1) (mulV l3 r3)]"
proof -
  from L obtain lv les lps where l: "objAt h l = Some (Matrix2Obj lv)"
    "objAt h lv = Some (ArrayObj les lps)"
    and lc: "[l0, l1, l2, l3] = [arrayRead les lps (Fin 0), arrayRead les lps (Fin 1),
               arrayRead les lps (Fin 2), arrayRead les lps (Fin 3)]"
    by (rule componentsD)
  from R obtain rv rvs rps where r: "objAt h r = Some (Matrix2Obj rv)"
    "objAt h rv = Some (ArrayObj rvs rps)"
    and rc: "[r0, r1, r2, r3] = [arrayRead rvs rps (Fin 0), arrayRead rvs rps (Fin 1),
               arrayRead rvs rps (Fin 2), arrayRead rvs rps (Fin 3)]"
    by (rule componentsD)
  from W obtain wv wes wps where w: "objAt h res = Some (Matrix2Obj wv)"
    "objAt h wv = Some (ArrayObj wes wps)" "\<not> isFrozen h wv"
    by (rule writableMatrixD)
  from lc have lc': "arrayRead les lps (Fin 0) = l0" "arrayRead les lps (Fin 1) = l1"
    "arrayRead les lps (Fin 2) = l2" "arrayRead les lps (Fin 3) = l3" by simp_all
  from rc have rc': "arrayRead rvs rps (Fin 0) = r0" "arrayRead rvs rps (Fin 1) = r1"
    "arrayRead rvs rps (Fin 2) = r2" "arrayRead rvs rps (Fin 3) = r3" by simp_all
  show ?thesis
    by (simp add: multiply_def valuesOf_def arrayOf_def Let_def l r w lc' rc'
        setFour_eq [OF w(2,3)] components_store [OF w(1,2)] del: arrayRead.simps)
qed

subsection \<open>Equality\<close>

lemma equals_components:
  assumes L: "components h l = Some [l0, l1, l2, l3]"
    and R: "components h r = Some [r0, r1, r2, r3]"
    and "l \<noteq> r"
  shows "equals h (Some l) (Some r) =
           Inr (strictEq l0 r0 \<and> strictEq l1 r1 \<and> strictEq l2 r2 \<and> strictEq l3 r3)"
proof -
  from L obtain lv les lps where l: "objAt h l = Some (Matrix2Obj lv)"
    "objAt h lv = Some (ArrayObj les lps)"
    and lc: "[l0, l1, l2, l3] = [arrayRead les lps (Fin 0), arrayRead les lps (Fin 1),
               arrayRead les lps (Fin 2), arrayRead les lps (Fin 3)]"
    by (rule componentsD)
  from R obtain rv rvs rps where r: "objAt h r = Some (Matrix2Obj rv)"
    "objAt h rv = Some (ArrayObj rvs rps)"
    and rc: "[r0, r1, r2, r3] = [arrayRead rvs rps (Fin 0), arrayRead rvs rps (Fin 1),
               arrayRead rvs rps (Fin 2), arrayRead rvs rps (Fin 3)]"
    by (rule componentsD)
  from lc have lc': "arrayRead les lps (Fin 0) = l0" "arrayRead les lps (Fin 1) = l1"
    "arrayRead les lps (Fin 2) = l2" "arrayRead les lps (Fin 3) = l3" by simp_all
  from rc have rc': "arrayRead rvs rps (Fin 0) = r0" "arrayRead rvs rps (Fin 1) = r1"
    "arrayRead rvs rps (Fin 2) = r2" "arrayRead rvs rps (Fin 3) = r3" by simp_all
  show ?thesis using \<open>l \<noteq> r\<close>
    by (simp add: equals_def valuesOf_def arrayOf_def l r lc' rc' del: arrayRead.simps)
qed

lemma components_sampleHeap:
  "components sampleHeap IDENTITY = Some [Num (Fin 1), Num (Fin 0), Num (Fin 0), Num (Fin 1)]"
  "components sampleHeap 3 = Some [Num (Fin 1), Num (Fin 2), Num (Fin 3), Num (Fin 4)]"
  "components sampleHeap 5 = Some [Num (Fin 5), Num (Fin 6), Num (Fin 7), Num (Fin 8)]"
  by (simp_all add: components_def objAt_def sampleHeap_def IDENTITY_def)

lemma writable_sampleHeap: "writableMatrix sampleHeap 3" "writableMatrix sampleHeap 5"
  by (simp_all add: writableMatrix_def objAt_def isFrozen_def sampleHeap_def)

lemma strictEq_iff: "strictEq a b = (a = b \<and> a \<noteq> Num NaN)"
proof (cases a)
  case Undefined
  then show ?thesis by (cases b) simp_all
next
  case (Num n)
  then show ?thesis by (cases b; cases n) auto
qed

lemma components_four:
  assumes "components h m = Some cs"
  obtains c0 c1 c2 c3 where "cs = [c0, c1, c2, c3]"
  using assms by (auto simp: components_def split: option.splits obj.splits)

lemma equals_total:
  assumes "matrixOrAbsent h left" and "matrixOrAbsent h right"
  shows "\<exists>b. equals h left right = Inr b"
proof (cases "left = right")
  case True
  then show ?thesis by (auto simp: equals_def)
next
  case False
  show ?thesis
  proof (cases left)
    case None
    with False show ?thesis by (auto simp: equals_def)
  next
    case l: (Some l)
    show ?thesis
    proof (cases right)
      case None
      with l show ?thesis by (auto simp: equals_def)
    next
      case r: (Some r)
      from assms(1) l obtain lcs where lc: "components h l = Some lcs"
        by (auto simp: matrixOrAbsent_def split: option.splits)
      from assms(2) r obtain rcs where rc: "components h r = Some rcs"
        by (auto simp: matrixOrAbsent_def split: option.splits)
      from lc obtain l0 l1 l2 l3 where "lcs = [l0, l1, l2, l3]" by (rule components_four)
      moreover from rc obtain r0 r1 r2 r3 where "rcs = [r0, r1, r2, r3]" by (rule components_four)
      ultimately show ?thesis using equals_components [of h l l0 l1 l2 l3 r r0 r1 r2 r3] lc rc False l r
        by auto
    qed
  qed
qed

lemma absDiff_self: "jsLt eps (Fin 0) \<Longrightarrow> jsLe (absDiffV a a) eps = False"
proof (cases a)
  case Undefined
  then show ?thesis by (simp add: absDiffV_def jsSub_def)
next
  case (Num n)
  assume "jsLt eps (Fin 0)"
  with Num show ?thesis by (cases n; cases eps) (simp_all add: absDiffV_def jsSub_def)
qed

lemma equalsEpsilon_components:
  assumes L: "components h l = Some [l0, l1, l2, l3]"
    and R: "components h r = Some [r0, r1, r2, r3]"
    and "l \<noteq> r"
  shows "equalsEpsilon h (Some l) (Some r) (Num eps) =
           Inr (jsLe (absDiffV l0 r0) eps \<and> jsLe (absDiffV l1 r1) eps \<and>
                jsLe (absDiffV l2 r2) eps \<and> jsLe (absDiffV l3 r3) eps)"
proof -
  from L obtain lv les lps where l: "objAt h l = Some (Matrix2Obj lv)"
    "objAt h lv = Some (ArrayObj les lps)"
    and lc: "[l0, l1, l2, l3] = [arrayRead les lps (Fin 0), arrayRead les lps (Fin 1),
               arrayRead les lps (Fin 2), arrayRead les lps (Fin 3)]"
    by (rule componentsD)
  from R obtain rv rvs rps where r: "objAt h r = Some (Matrix2Obj rv)"
    "objAt h rv = Some (ArrayObj rvs rps)"
    and rc: "[r0, r1, r2, r3] = [arrayRead rvs rps (Fin 0), arrayRead rvs rps (Fin 1),
               arrayRead rvs rps (Fin 2), arrayRead rvs rps (Fin 3)]"
    by (rule componentsD)
  from lc have lc': "arrayRead les lps (Fin 0) = l0" "arrayRead les lps (Fin 1) = l1"
    "arrayRead les lps (Fin 2) = l2" "arrayRead les lps (Fin 3) = l3" by simp_all
  from rc have rc': "arrayRead rvs rps (Fin 0) = r0" "arrayRead rvs rps (Fin 1) = r1"
    "arrayRead rvs rps (Fin 2) = r2" "arrayRead rvs rps (Fin 3) = r3" by simp_all
  show ?thesis using \<open>l \<noteq> r\<close>
    by (simp add: equalsEpsilon_def valuesOf_def arrayOf_def l r lc' rc' del: arrayRead.simps)
qed

lemma identity_left_diag:
  "strictEq (addV (mulV (Num (Fin 1)) x) (mulV (Num (Fin 0)) y)) x =
     (x \<noteq> Undefined \<and> x \<noteq> Num NaN \<and> finiteV y)"
proof (cases x)
  case Undefined
  then show ?thesis by (simp add: addV_def mulV_def)
next
  case (Num n)
  note x = this
  show ?thesis
  proof (cases y)
    case Undefined
    with x show ?thesis by (cases n) (simp_all add: addV_def mulV_def infTimes_def)
  next
    case (Num k)
    with x show ?thesis by (cases n; cases k) (simp_all add: addV_def mulV_def infTimes_def)
  qed
qed

lemma identity_left_off:
  "strictEq (addV (mulV (Num (Fin 0)) y) (mulV (Num (Fin 1)) x)) x =
     (x \<noteq> Undefined \<and> x \<noteq> Num NaN \<and> finiteV y)"
proof (cases x)
  case Undefined
  then show ?thesis by (simp add: addV_def mulV_def)
next
  case (Num n)
  note x = this
  show ?thesis
  proof (cases y)
    case Undefined
    with x show ?thesis by (cases n) (simp_all add: addV_def mulV_def infTimes_def)
  next
    case (Num k)
    with x show ?thesis by (cases n; cases k) (simp_all add: addV_def mulV_def infTimes_def)
  qed
qed

lemma identity_right_diag:
  "strictEq (addV (mulV x (Num (Fin 1))) (mulV y (Num (Fin 0)))) x =
     (x \<noteq> Undefined \<and> x \<noteq> Num NaN \<and> finiteV y)"
proof (cases x)
  case Undefined
  then show ?thesis by (simp add: addV_def mulV_def)
next
  case (Num n)
  note x = this
  show ?thesis
  proof (cases y)
    case Undefined
    with x show ?thesis by (cases n) (simp_all add: addV_def mulV_def infTimes_def)
  next
    case (Num k)
    with x show ?thesis by (cases n; cases k) (simp_all add: addV_def mulV_def infTimes_def)
  qed
qed

lemma identity_right_off:
  "strictEq (addV (mulV y (Num (Fin 0))) (mulV x (Num (Fin 1)))) x =
     (x \<noteq> Undefined \<and> x \<noteq> Num NaN \<and> finiteV y)"
proof (cases x)
  case Undefined
  then show ?thesis by (simp add: addV_def mulV_def)
next
  case (Num n)
  note x = this
  show ?thesis
  proof (cases y)
    case Undefined
    with x show ?thesis by (cases n) (simp_all add: addV_def mulV_def infTimes_def)
  next
    case (Num k)
    with x show ?thesis by (cases n; cases k) (simp_all add: addV_def mulV_def infTimes_def)
  qed
qed

lemma finiteV_not: "finiteV x \<Longrightarrow> x \<noteq> Undefined \<and> x \<noteq> Num NaN"
  by (cases x rule: finiteV.cases) simp_all

lemma finiteV_strictEq: "finiteV x \<Longrightarrow> strictEq y x \<Longrightarrow> y = x"
  by (simp add: strictEq_iff)

subsection \<open>Formatting, rows and columns\<close>

lemma digit_char: "n < 10 \<Longrightarrow> ''0123456789'' ! n \<in> set ''0123456789''"
  by (rule nth_mem) simp

declare digitsOf.simps [simp del]

lemma digitsOf_chars: "set (digitsOf n) \<subseteq> set ''0123456789''"
proof (induction n rule: digitsOf.induct)
  case (1 n)
  show ?case
  proof (cases "n < 10")
    case True
    then have "digitsOf n = [''0123456789'' ! n]" by (subst digitsOf.simps) simp
    with True show ?thesis using digit_char [of n] by simp
  next
    case False
    then have d: "digitsOf n = digitsOf (n div 10) @ [''0123456789'' ! (n mod 10)]"
      by (subst digitsOf.simps) simp
    have "n mod 10 < 10" by simp
    then have "''0123456789'' ! (n mod 10) \<in> set ''0123456789''" by (rule digit_char)
    with False 1 show ?thesis unfolding d by simp
  qed
qed

lemma digitsOf_small [simp]:
  "digitsOf (Suc 0) = ''1''" "digitsOf 2 = ''2''" "digitsOf 3 = ''3''" "digitsOf 4 = ''4''"
  by (simp_all add: digitsOf.simps)

lemma digitsOf_no_newline: "CHR ''\<newline>'' \<notin> set (digitsOf n)"
  using digitsOf_chars [of n] by auto

lemma valueToString_no_newline:
  assumes "\<forall>r. CHR ''\<newline>'' \<notin> set (fmt r)"
  shows "CHR ''\<newline>'' \<notin> set (valueToString fmt v)"
proof (cases v)
  case Undefined
  then show ?thesis by (simp add: valueToString_def)
next
  case (Num n)
  with assms show ?thesis
    by (cases n) (simp_all add: valueToString_def numberToString_def digitsOf_no_newline
)
qed

lemma rowText_no_newline:
  assumes "\<forall>r. CHR ''\<newline>'' \<notin> set (fmt r)"
  shows "CHR ''\<newline>'' \<notin> set (rowText fmt x y)"
  using valueToString_no_newline [OF assms] by (simp add: rowText_def)

lemma rowText_last: "last (rowText fmt x y) = CHR '')''"
  by (simp add: rowText_def)

lemma toString_components:
  assumes "components h m = Some [v0, v1, v2, v3]"
  shows "toString fmt h (Some m) = Inr (rowText fmt v0 v1 @ ''\<newline>'' @ rowText fmt v2 v3)"
proof -
  from assms obtain va es ps where m: "objAt h m = Some (Matrix2Obj va)"
    "objAt h va = Some (ArrayObj es ps)"
    and c: "[v0, v1, v2, v3] = [arrayRead es ps (Fin 0), arrayRead es ps (Fin 1),
               arrayRead es ps (Fin 2), arrayRead es ps (Fin 3)]"
    by (rule componentsD)
  from c have c': "arrayRead es ps (Fin 0) = v0" "arrayRead es ps (Fin 1) = v1"
    "arrayRead es ps (Fin 2) = v2" "arrayRead es ps (Fin 3) = v3" by simp_all
  show ?thesis
    by (simp add: toString_def matrixValue_def valuesOf_def elemGet_def rowText_def m c'
        del: arrayRead.simps)
qed

lemma getRow_components:
  assumes "components h m = Some [v0, v1, v2, v3]"
  shows "getRow h (Some m) (Num (Fin 0)) None =
           Inr (length h, h @ [\<lparr>body = Cartesian2Obj v0 v1, frozen = False\<rparr>])"
    and "getRow h (Some m) (Num (Fin 1)) None =
           Inr (length h, h @ [\<lparr>body = Cartesian2Obj v2 v3, frozen = False\<rparr>])"
proof -
  from assms obtain va es ps where m: "objAt h m = Some (Matrix2Obj va)"
    "objAt h va = Some (ArrayObj es ps)"
    and c: "[v0, v1, v2, v3] = [arrayRead es ps (Fin 0), arrayRead es ps (Fin 1),
               arrayRead es ps (Fin 2), arrayRead es ps (Fin 3)]"
    by (rule componentsD)
  from c have c': "arrayRead es ps (Fin 0) = v0" "arrayRead es ps (Fin 1) = v1"
    "arrayRead es ps (Fin 2) = v2" "arrayRead es ps (Fin 3) = v3" by simp_all
  show "getRow h (Some m) (Num (Fin 0)) None =
           Inr (length h, h @ [\<lparr>body = Cartesian2Obj v0 v1, frozen = False\<rparr>])"
    by (simp add: getRow_def badIndex_def matrixValue_def valuesOf_def elemGet_def
        newCartesian2_def alloc_def m c' del: arrayRead.simps)
  show "getRow h (Some m) (Num (Fin 1)) None =
           Inr (length h, h @ [\<lparr>body = Cartesian2Obj v2 v3, frozen = False\<rparr>])"
    by (simp add: getRow_def badIndex_def matrixValue_def valuesOf_def elemGet_def
        newCartesian2_def alloc_def m c' del: arrayRead.simps)
qed

lemma getColumn_components:
  assumes "components h m = Some [v0, v1, v2, v3]"
  shows "getColumn h (Some m) (Num (Fin 0)) None =
           Inr (length h, h @ [\<lparr>body = Cartesian2Obj v0 v2, frozen = False\<rparr>])"
    and "getColumn h (Some m) (Num (Fin 1)) None =
           Inr (length h, h @ [\<lparr>body = Cartesian2Obj v1 v3, frozen = False\<rparr>])"
proof -
  from assms obtain va es ps where m: "objAt h m = Some (Matrix2Obj va)"
    "objAt h va = Some (ArrayObj es ps)"
    and c: "[v0, v1, v2, v3] = [arrayRead es ps (Fin 0), arrayRead es ps (Fin 1),
               arrayRead es ps (Fin 2), arrayRead es ps (Fin 3)]"
    by (rule componentsD)
  from c have c': "arrayRead es ps (Fin 0) = v0" "arrayRead es ps (Fin 1) = v1"
    "arrayRead es ps (Fin 2) = v2" "arrayRead es ps (Fin 3) = v3" by simp_all
  show "getColumn h (Some m) (Num (Fin 0)) None =
           Inr (length h, h @ [\<lparr>body = Cartesian2Obj v0 v2, frozen = False\<rparr>])"
    by (simp add: getColumn_def badIndex_def matrixValue_def valuesOf_def elemGet_def
        newCartesian2_def alloc_def m c' del: arrayRead.simps)
  show "getColumn h (Some m) (Num (Fin 1)) None =
           Inr (length h, h @ [\<lparr>body = Cartesian2Obj v1 v3, frozen = False\<rparr>])"
    by (simp add: getColumn_def badIndex_def matrixValue_def valuesOf_def elemGet_def
        newCartesian2_def alloc_def m c' del: arrayRead.simps)
qed

lemma coordinates_fresh:
  "coordinates (h @ [\<lparr>body = Cartesian2Obj x y, frozen = False\<rparr>]) (length h) = Some (x, y)"
  by (simp add: coordinates_def objAt_def)

subsection \<open>The row-major factory\<close>

lemma noDev_Inr [simp]: "noDeveloperError (Inr x)"
  by (simp add: noDeveloperError_def)

lemma noDev_TypeError [simp]: "noDeveloperError (Inl TypeError)"
  by (simp add: noDeveloperError_def)

lemma noDev_bindE:
  assumes "noDeveloperError m" and "\<And>x. noDeveloperError (f x)"
  shows "noDeveloperError (bindE m f)"
  using assms by (cases m) (simp_all add: noDeveloperError_def)

lemma noDev_elemGet [simp]: "noDeveloperError (elemGet h a k)"
  by (simp add: elemGet_def split: option.splits obj.splits)

lemma noDev_elemSet [simp]: "noDeveloperError (elemSet h a k v)"
  by (simp add: elemSet_def split: option.splits obj.splits)

lemma noDev_valuesOf [simp]: "noDeveloperError (valuesOf h m)"
  by (simp add: valuesOf_def split: option.splits obj.splits)

lemma noDev_setResultValue [simp]: "noDeveloperError (setResultValue h res k v)"
  unfolding setResultValue_def by (rule noDev_bindE) simp_all

lemma isArray_Some: "isArray h (Some a) = (\<exists>es ps. objAt h a = Some (ArrayObj es ps))"
  by (simp add: isArray_def split: option.splits obj.splits)

lemma fromRowMajorArray_new:
  assumes "objAt h a = Some (ArrayObj es ps)"
  shows "fromRowMajorArray h (Some a) None =
     Inr (Suc (length h),
          h @ [\<lparr>body = ArrayObj [arrayRead es ps (Fin 0), arrayRead es ps (Fin 2),
                                   arrayRead es ps (Fin 1), arrayRead es ps (Fin 3)] [],
                 frozen = False\<rparr>,
               \<lparr>body = Matrix2Obj (length h), frozen = False\<rparr>])"
  using assms
  by (simp add: fromRowMajorArray_def isArray_def elemGet_def newMatrix2Of_eq
      del: arrayRead.simps)

subsection \<open>Transposition and the index guard\<close>

lemma transpose_new_eq:
  assumes M: "components h m = Some [v0, v1, v2, v3]"
  shows "transpose h (Some m) None =
           Inr (Suc (length h),
                h @ [\<lparr>body = ArrayObj [v0, v2, v1, v3] [], frozen = False\<rparr>,
                     \<lparr>body = Matrix2Obj (length h), frozen = False\<rparr>])"
proof -
  from M obtain va es ps where m: "objAt h m = Some (Matrix2Obj va)"
    "objAt h va = Some (ArrayObj es ps)"
    and c: "[v0, v1, v2, v3] = [arrayRead es ps (Fin 0), arrayRead es ps (Fin 1),
               arrayRead es ps (Fin 2), arrayRead es ps (Fin 3)]"
    by (rule componentsD)
  from c have c': "arrayRead es ps (Fin 0) = v0" "arrayRead es ps (Fin 1) = v1"
    "arrayRead es ps (Fin 2) = v2" "arrayRead es ps (Fin 3) = v3" by simp_all
  show ?thesis
    by (simp add: transpose_def valuesOf_def arrayOf_def newMatrix2Of_eq Let_def m c'
        del: arrayRead.simps)
qed

lemma transpose_into:
  assumes M: "components h m = Some [v0, v1, v2, v3]"
    and W: "writableMatrix h res"
  shows "\<exists>h'. transpose h (Some m) (Some res) = Inr (res, h') \<and>
           components h' res = Some [v0, v2, v1, v3]"
proof -
  from M obtain va es ps where m: "objAt h m = Some (Matrix2Obj va)"
    "objAt h va = Some (ArrayObj es ps)"
    and c: "[v0, v1, v2, v3] = [arrayRead es ps (Fin 0), arrayRead es ps (Fin 1),
               arrayRead es ps (Fin 2), arrayRead es ps (Fin 3)]"
    by (rule componentsD)
  from W obtain wv wes wps where w: "objAt h res = Some (Matrix2Obj wv)"
    "objAt h wv = Some (ArrayObj wes wps)" "\<not> isFrozen h wv"
    by (rule writableMatrixD)
  from c have c': "arrayRead es ps (Fin 0) = v0" "arrayRead es ps (Fin 1) = v1"
    "arrayRead es ps (Fin 2) = v2" "arrayRead es ps (Fin 3) = v3" by simp_all
  show ?thesis
    by (simp add: transpose_def valuesOf_def arrayOf_def Let_def m w c'
        setFour_eq [OF w(2,3)] components_store [OF w(1,2)] del: arrayRead.simps)
qed

lemma badIndex_iff:
  "badIndex index =
     (case index of
        Undefined \<Rightarrow> True
      | Num NaN \<Rightarrow> False
      | Num PInf \<Rightarrow> True
      | Num NInf \<Rightarrow> True
      | Num (Fin r) \<Rightarrow> r < 0 \<or> 1 < r)"
  by (simp add: badIndex_def split: jsval.splits jsnum.splits)

lemma getColumn_error_iff:
  "(\<exists>msg. getColumn h matrix index result = Inl (DeveloperError msg)) =
     (matrix = None \<or> badIndex index)"
proof (cases matrix)
  case None
  then show ?thesis by (simp add: getColumn_def)
next
  case (Some m)
  show ?thesis
  proof (cases "badIndex index")
    case True
    with Some show ?thesis by (simp add: getColumn_def)
  next
    case False
    have "noDeveloperError (getColumn h (Some m) index result)"
      using False
      by (cases result)
        (auto simp: getColumn_def Let_def matrixValue_def setX_def setY_def
          intro!: noDev_bindE split: option.splits obj.splits)
    with Some False show ?thesis by (auto simp: noDeveloperError_def)
  qed
qed

subsection \<open>The sample heaps\<close>

text \<open>The two heaps used in the examples are the ones the code builds.\<close>

lemma moduleInit_eq: "moduleInit = Inr (IDENTITY, initialHeap)"
  by (simp add: moduleInit_def fromComponents_new objectFreeze_def IDENTITY_def
      initialHeap_def)

lemma sampleHeap_eq:
  "bindE moduleInit (\<lambda>(i, h0).
   bindE (fromComponents h0 (Num (Fin 1)) (Num (Fin 2)) (Num (Fin 3)) (Num (Fin 4)) None)
     (\<lambda>(a, h1).
   bindE (fromComponents h1 (Num (Fin 5)) (Num (Fin 6)) (Num (Fin 7)) (Num (Fin 8)) None)
     (\<lambda>(b, h2). Inr (i, a, b, h2)))) =
   Inr (IDENTITY, 3, 5, sampleHeap)"
  by (simp add: moduleInit_eq fromComponents_new initialHeap_def sampleHeap_def)

subsection \<open>Writing to a supplied vector\<close>

lemma writableVectorD:
  assumes "writableVector h v"
  obtains x y where "objAt h v = Some (Cartesian2Obj x y)" and "\<not> isFrozen h v"
  using assms by (cases "objAt h v") (auto simp: writableVector_def split: obj.splits)

lemma setXY:
  assumes "objAt h v = Some (Cartesian2Obj x0 y0)" and "\<not> isFrozen h v"
  shows "bindE (setX h v x) (\<lambda>h1. bindE (setY h1 v y) (\<lambda>h2. Inr (v, h2))) =
           Inr (v, store h v (Cartesian2Obj x y))"
proof -
  from assms(1) have "v < length h" by (rule objAt_Some_less)
  with assms show ?thesis by (simp add: setX_def setY_def objAt_store)
qed

lemma coordinates_store:
  assumes "objAt h v = Some (Cartesian2Obj x0 y0)"
  shows "coordinates (store h v (Cartesian2Obj x y)) v = Some (x, y)"
proof -
  from assms have "v < length h" by (rule objAt_Some_less)
  then show ?thesis by (simp add: coordinates_def objAt_store)
qed

lemma getRow_into:
  assumes M: "components h m = Some [v0, v1, v2, v3]" and W: "writableVector h v"
  shows "\<exists>h'. getRow h (Some m) (Num (Fin 0)) (Some v) = Inr (v, h') \<and>
           coordinates h' v = Some (v0, v1)"
    and "\<exists>h'. getRow h (Some m) (Num (Fin 1)) (Some v) = Inr (v, h') \<and>
           coordinates h' v = Some (v2, v3)"
proof -
  from M obtain va es ps where m: "objAt h m = Some (Matrix2Obj va)"
    "objAt h va = Some (ArrayObj es ps)"
    and c: "[v0, v1, v2, v3] = [arrayRead es ps (Fin 0), arrayRead es ps (Fin 1),
               arrayRead es ps (Fin 2), arrayRead es ps (Fin 3)]"
    by (rule componentsD)
  from c have c': "arrayRead es ps (Fin 0) = v0" "arrayRead es ps (Fin 1) = v1"
    "arrayRead es ps (Fin 2) = v2" "arrayRead es ps (Fin 3) = v3" by simp_all
  from W obtain x0 y0 where w: "objAt h v = Some (Cartesian2Obj x0 y0)" "\<not> isFrozen h v"
    by (rule writableVectorD)
  show "\<exists>h'. getRow h (Some m) (Num (Fin 0)) (Some v) = Inr (v, h') \<and>
           coordinates h' v = Some (v0, v1)"
    by (simp add: getRow_def badIndex_def matrixValue_def valuesOf_def elemGet_def m c'
        setXY [OF w] coordinates_store [OF w(1)] del: arrayRead.simps)
  show "\<exists>h'. getRow h (Some m) (Num (Fin 1)) (Some v) = Inr (v, h') \<and>
           coordinates h' v = Some (v2, v3)"
    by (simp add: getRow_def badIndex_def matrixValue_def valuesOf_def elemGet_def m c'
        setXY [OF w] coordinates_store [OF w(1)] del: arrayRead.simps)
qed

lemma getColumn_into:
  assumes M: "components h m = Some [v0, v1, v2, v3]" and W: "writableVector h v"
  shows "\<exists>h'. getColumn h (Some m) (Num (Fin 0)) (Some v) = Inr (v, h') \<and>
           coordinates h' v = Some (v0, v2)"
    and "\<exists>h'. getColumn h (Some m) (Num (Fin 1)) (Some v) = Inr (v, h') \<and>
           coordinates h' v = Some (v1, v3)"
proof -
  from M obtain va es ps where m: "objAt h m = Some (Matrix2Obj va)"
    "objAt h va = Some (ArrayObj es ps)"
    and c: "[v0, v1, v2, v3] = [arrayRead es ps (Fin 0), arrayRead es ps (Fin 1),
               arrayRead es ps (Fin 2), arrayRead es ps (Fin 3)]"
    by (rule componentsD)
  from c have c': "arrayRead es ps (Fin 0) = v0" "arrayRead es ps (Fin 1) = v1"
    "arrayRead es ps (Fin 2) = v2" "arrayRead es ps (Fin 3) = v3" by simp_all
  from W obtain x0 y0 where w: "objAt h v = Some (Cartesian2Obj x0 y0)" "\<not> isFrozen h v"
    by (rule writableVectorD)
  show "\<exists>h'. getColumn h (Some m) (Num (Fin 0)) (Some v) = Inr (v, h') \<and>
           coordinates h' v = Some (v0, v2)"
    by (simp add: getColumn_def badIndex_def matrixValue_def valuesOf_def elemGet_def m c'
        setXY [OF w] coordinates_store [OF w(1)] del: arrayRead.simps)
  show "\<exists>h'. getColumn h (Some m) (Num (Fin 1)) (Some v) = Inr (v, h') \<and>
           coordinates h' v = Some (v1, v3)"
    by (simp add: getColumn_def badIndex_def matrixValue_def valuesOf_def elemGet_def m c'
        setXY [OF w] coordinates_store [OF w(1)] del: arrayRead.simps)
qed

lemma vectorHeap_eq: "newCartesian2 sampleHeap (Num (Fin 9)) (Num (Fin 10)) = (6, vectorHeap)"
  by (simp add: newCartesian2_def alloc_def vectorHeap_def sampleHeap_def)

lemma vectorHeap_facts:
  "components vectorHeap 3 = Some [Num (Fin 1), Num (Fin 2), Num (Fin 3), Num (Fin 4)]"
  "writableVector vectorHeap 6"
  by (simp_all add: components_def objAt_def vectorHeap_def sampleHeap_def writableVector_def
      isFrozen_def)

section \<open>The claims\<close>

subsection \<open>C1: the product formula\<close>

text \<open>
  C1.  For all matrices \<open>L\<close> and \<open>R\<close> with components \<open>l0 .. l3\<close> and \<open>r0 .. r3\<close>,
  \<^verbatim>\<open>multiply(L, R)\<close> succeeds and its result holds \<open>l0*r0 + l1*r2\<close>,
  \<open>l0*r1 + l1*r3\<close>, \<open>l2*r0 + l3*r2\<close> and \<open>l2*r1 + l3*r3\<close>, whether the result is
  allocated or written to a supplied writable instance, which may be \<open>L\<close> or \<open>R\<close>.
  In particular, on any heap, \<^verbatim>\<open>multiply(fromComponents(1,2,3,4),
  fromComponents(5,6,7,8))\<close> has the components of \<^verbatim>\<open>fromComponents(19,22,43,50)\<close>, and
  \<^verbatim>\<open>equals\<close> reports the two as equal.
\<close>

theorem multiply_formula:
  "(components h l = Some [l0, l1, l2, l3] \<longrightarrow>
    components h r = Some [r0, r1, r2, r3] \<longrightarrow>
    (case result of None \<Rightarrow> True | Some res \<Rightarrow> writableMatrix h res) \<longrightarrow>
    (\<exists>m h'. multiply h (Some l) (Some r) result = Inr (m, h') \<and>
       (case result of None \<Rightarrow> True | Some res \<Rightarrow> m = res) \<and>
       components h' m =
         Some [addV (mulV l0 r0) (mulV l1 r2), addV (mulV l0 r1) (mulV l1 r3),
               addV (mulV l2 r0) (mulV l3 r2), addV (mulV l2 r1) (mulV l3 r3)])) \<and>
   (case fromComponents h0 (Num (Fin 1)) (Num (Fin 2)) (Num (Fin 3)) (Num (Fin 4)) None of
      Inl e \<Rightarrow> False
    | Inr (a, h1) \<Rightarrow>
       (case fromComponents h1 (Num (Fin 5)) (Num (Fin 6)) (Num (Fin 7)) (Num (Fin 8)) None of
          Inl e \<Rightarrow> False
        | Inr (b, h2) \<Rightarrow>
           (case multiply h2 (Some a) (Some b) None of
              Inl e \<Rightarrow> False
            | Inr (p, h3) \<Rightarrow>
               (case fromComponents h3 (Num (Fin 19)) (Num (Fin 22)) (Num (Fin 43))
                       (Num (Fin 50)) None of
                  Inl e \<Rightarrow> False
                | Inr (q, h4) \<Rightarrow>
                    components h4 p = components h4 q \<and>
                    equals h4 (Some p) (Some q) = Inr True))))"
proof
  show "components h l = Some [l0, l1, l2, l3] \<longrightarrow>
    components h r = Some [r0, r1, r2, r3] \<longrightarrow>
    (case result of None \<Rightarrow> True | Some res \<Rightarrow> writableMatrix h res) \<longrightarrow>
    (\<exists>m h'. multiply h (Some l) (Some r) result = Inr (m, h') \<and>
       (case result of None \<Rightarrow> True | Some res \<Rightarrow> m = res) \<and>
       components h' m =
         Some [addV (mulV l0 r0) (mulV l1 r2), addV (mulV l0 r1) (mulV l1 r3),
               addV (mulV l2 r0) (mulV l3 r2), addV (mulV l2 r1) (mulV l3 r3)])"
  proof (cases result)
    case None
    then show ?thesis using multiply_new [of h l l0 l1 l2 l3 r r0 r1 r2 r3] by simp
  next
    case (Some res)
    then show ?thesis using multiply_into [of h l l0 l1 l2 l3 r r0 r1 r2 r3 res] by auto
  qed
next
  define h1 where "h1 = h0 @
    [\<lparr>body = ArrayObj [Num (Fin 1), Num (Fin 2), Num (Fin 3), Num (Fin 4)] [], frozen = False\<rparr>,
     \<lparr>body = Matrix2Obj (length h0), frozen = False\<rparr>]"
  define h2 where "h2 = h1 @
    [\<lparr>body = ArrayObj [Num (Fin 5), Num (Fin 6), Num (Fin 7), Num (Fin 8)] [], frozen = False\<rparr>,
     \<lparr>body = Matrix2Obj (length h1), frozen = False\<rparr>]"
  have a: "components h1 (Suc (length h0)) =
      Some [Num (Fin 1), Num (Fin 2), Num (Fin 3), Num (Fin 4)]"
    unfolding h1_def by (rule components_fresh)
  have a2: "components h2 (Suc (length h0)) =
      Some [Num (Fin 1), Num (Fin 2), Num (Fin 3), Num (Fin 4)]"
    unfolding h2_def using a by (rule components_mono)
  have b2: "components h2 (Suc (length h1)) =
      Some [Num (Fin 5), Num (Fin 6), Num (Fin 7), Num (Fin 8)]"
    unfolding h2_def by (rule components_fresh)
  from multiply_new [OF a2 b2] obtain p h3 where
    m: "multiply h2 (Some (Suc (length h0))) (Some (Suc (length h1))) None = Inr (p, h3)"
    and p: "components h3 p = Some [Num (Fin 19), Num (Fin 22), Num (Fin 43), Num (Fin 50)]"
    by (auto simp: addV_def mulV_def)
  define h4 where "h4 = h3 @
    [\<lparr>body = ArrayObj [Num (Fin 19), Num (Fin 22), Num (Fin 43), Num (Fin 50)] [],
      frozen = False\<rparr>,
     \<lparr>body = Matrix2Obj (length h3), frozen = False\<rparr>]"
  have p4: "components h4 p = Some [Num (Fin 19), Num (Fin 22), Num (Fin 43), Num (Fin 50)]"
    unfolding h4_def using p by (rule components_mono)
  have q4: "components h4 (Suc (length h3)) =
      Some [Num (Fin 19), Num (Fin 22), Num (Fin 43), Num (Fin 50)]"
    unfolding h4_def by (rule components_fresh)
  from p have "p < length h3" by (rule components_less)
  then have ne: "p \<noteq> Suc (length h3)" by simp
  have e: "equals h4 (Some p) (Some (Suc (length h3))) = Inr True"
    by (simp add: equals_components [OF p4 q4 ne])
  show "case fromComponents h0 (Num (Fin 1)) (Num (Fin 2)) (Num (Fin 3)) (Num (Fin 4)) None of
      Inl e \<Rightarrow> False
    | Inr (a, h1) \<Rightarrow>
       (case fromComponents h1 (Num (Fin 5)) (Num (Fin 6)) (Num (Fin 7)) (Num (Fin 8)) None of
          Inl e \<Rightarrow> False
        | Inr (b, h2) \<Rightarrow>
           (case multiply h2 (Some a) (Some b) None of
              Inl e \<Rightarrow> False
            | Inr (p, h3) \<Rightarrow>
               (case fromComponents h3 (Num (Fin 19)) (Num (Fin 22)) (Num (Fin 43))
                       (Num (Fin 50)) None of
                  Inl e \<Rightarrow> False
                | Inr (q, h4) \<Rightarrow>
                    components h4 p = components h4 q \<and>
                    equals h4 (Some p) (Some q) = Inr True)))"
    by (simp add: fromComponents_new h1_def [symmetric] h2_def [symmetric] m
        h4_def [symmetric] p4 q4 e)
qed

theorem multiply_formula_witness:
  "components sampleHeap 3 = Some [Num (Fin 1), Num (Fin 2), Num (Fin 3), Num (Fin 4)] \<and>
   components sampleHeap 5 = Some [Num (Fin 5), Num (Fin 6), Num (Fin 7), Num (Fin 8)] \<and>
   writableMatrix sampleHeap 3 \<and>
   (\<exists>h'. multiply sampleHeap (Some 3) (Some 5) (Some 3) = Inr (3, h') \<and>
      components h' 3 = Some [Num (Fin 19), Num (Fin 22), Num (Fin 43), Num (Fin 50)])"
proof -
  have w: "writableMatrix sampleHeap 3"
    by (rule writable_sampleHeap)
  note g = multiply_formula [of sampleHeap 3 "Num (Fin 1)" "Num (Fin 2)" "Num (Fin 3)"
      "Num (Fin 4)" 5 "Num (Fin 5)" "Num (Fin 6)" "Num (Fin 7)" "Num (Fin 8)" "Some 3" "[]",
      THEN conjunct1, rule_format]
  have "\<exists>m h'. multiply sampleHeap (Some 3) (Some 5) (Some 3) = Inr (m, h') \<and>
      (case Some 3 of None \<Rightarrow> True | Some res \<Rightarrow> m = res) \<and>
      components h' m =
        Some [addV (mulV (Num (Fin 1)) (Num (Fin 5))) (mulV (Num (Fin 2)) (Num (Fin 7))),
              addV (mulV (Num (Fin 1)) (Num (Fin 6))) (mulV (Num (Fin 2)) (Num (Fin 8))),
              addV (mulV (Num (Fin 3)) (Num (Fin 5))) (mulV (Num (Fin 4)) (Num (Fin 7))),
              addV (mulV (Num (Fin 3)) (Num (Fin 6))) (mulV (Num (Fin 4)) (Num (Fin 8)))]"
  proof (rule g)
    show "components sampleHeap 3 = Some [Num (Fin 1), Num (Fin 2), Num (Fin 3), Num (Fin 4)]"
      by (rule components_sampleHeap)
    show "components sampleHeap 5 = Some [Num (Fin 5), Num (Fin 6), Num (Fin 7), Num (Fin 8)]"
      by (rule components_sampleHeap)
    show "case Some 3 of None \<Rightarrow> True | Some res \<Rightarrow> writableMatrix sampleHeap res"
      using w by simp
  qed
  then have "\<exists>h'. multiply sampleHeap (Some 3) (Some 5) (Some 3) = Inr (3, h') \<and>
      components h' 3 = Some [Num (Fin 19), Num (Fin 22), Num (Fin 43), Num (Fin 50)]"
    by (auto simp: addV_def mulV_def)
  with w components_sampleHeap(2,3) show ?thesis by blast
qed

subsection \<open>C2: the two call modes\<close>

text \<open>
  C2 at the input where the code departs from it.  With \<open>a = fromComponents(1,2,3,4)\<close>,
  the allocating call \<^verbatim>\<open>fromRowMajorArray(a.values)\<close> returns the components
  \<open>(1, 3, 2, 4)\<close>, but \<^verbatim>\<open>fromRowMajorArray(a.values, a)\<close> leaves \<open>a\<close> with
  \<open>(1, 3, 3, 4)\<close>: the second assignment overwrites \<open>values[1]\<close> before the third reads
  it.  \<^verbatim>\<open>transpose\<close>, which caches its reads, gives \<open>(1, 3, 2, 4)\<close> in both modes, also
  for \<^verbatim>\<open>transpose(a, a)\<close>.
\<close>

theorem result_alias_evaluation:
  "(case fromRowMajorArray sampleHeap (Some 2) None of
      Inl e \<Rightarrow> False
    | Inr (m, h') \<Rightarrow>
        components h' m = Some [Num (Fin 1), Num (Fin 3), Num (Fin 2), Num (Fin 4)]) \<and>
   (case fromRowMajorArray sampleHeap (Some 2) (Some 3) of
      Inl e \<Rightarrow> False
    | Inr (m, h') \<Rightarrow>
        m = 3 \<and> components h' m = Some [Num (Fin 1), Num (Fin 3), Num (Fin 3), Num (Fin 4)]) \<and>
   (case transpose sampleHeap (Some 3) None of
      Inl e \<Rightarrow> False
    | Inr (m, h') \<Rightarrow>
        components h' m = Some [Num (Fin 1), Num (Fin 3), Num (Fin 2), Num (Fin 4)]) \<and>
   (case transpose sampleHeap (Some 3) (Some 3) of
      Inl e \<Rightarrow> False
    | Inr (m, h') \<Rightarrow>
        m = 3 \<and> components h' m = Some [Num (Fin 1), Num (Fin 3), Num (Fin 2), Num (Fin 4)])"
  by (simp add: fromRowMajorArray_def isArray_def objAt_def sampleHeap_def elemGet_def
      newMatrix2Of_eq components_def setResultValue_def valuesOf_def elemSet_def isFrozen_def
      store_def writeElem_def transpose_def arrayOf_def setFour_def)

subsection \<open>C3: the layout\<close>

text \<open>
  C3 at an input where the code departs from it.  With \<open>a = fromComponents(1,2,3,4)\<close>,
  the entry at row 0 and column 1 is reported as 2, both at position 0 of
  \<^verbatim>\<open>getColumn(a, 1)\<close> and at position 1 of \<^verbatim>\<open>getRow(a, 0)\<close>, with a supplied vector
  and without, while the storage element \<open>values[1*2 + 0]\<close> is 3.  The accessors address
  row \<open>r\<close>, column \<open>c\<close> at \<open>values[r*2 + c]\<close>.
\<close>

theorem layout_evaluation:
  "matrixValue vectorHeap 3 (Fin (1 * 2 + 0)) = Inr (Num (Fin 3)) \<and>
   (case getColumn vectorHeap (Some 3) (Num (Fin 1)) (Some 6) of
      Inl e \<Rightarrow> False
    | Inr (c, h') \<Rightarrow> c = 6 \<and> coordinates h' c = Some (Num (Fin 2), Num (Fin 4))) \<and>
   (case getRow vectorHeap (Some 3) (Num (Fin 0)) (Some 6) of
      Inl e \<Rightarrow> False
    | Inr (c, h') \<Rightarrow> c = 6 \<and> coordinates h' c = Some (Num (Fin 1), Num (Fin 2))) \<and>
   (case getColumn vectorHeap (Some 3) (Num (Fin 1)) None of
      Inl e \<Rightarrow> False
    | Inr (c, h') \<Rightarrow> coordinates h' c = Some (Num (Fin 2), Num (Fin 4))) \<and>
   (case getRow vectorHeap (Some 3) (Num (Fin 0)) None of
      Inl e \<Rightarrow> False
    | Inr (c, h') \<Rightarrow> coordinates h' c = Some (Num (Fin 1), Num (Fin 2)))"
  by (simp add: matrixValue_def valuesOf_def elemGet_def objAt_def vectorHeap_def sampleHeap_def
      getColumn_def getRow_def badIndex_def newCartesian2_def alloc_def coordinates_def Let_def
      setX_def setY_def isFrozen_def store_def)

subsection \<open>C4: the index guard\<close>

text \<open>
  C4 at an input where the code departs from it.  The index \<open>0.5\<close> is neither 0 nor 1,
  but it passes the guard, which only rejects a value that is not a number, is below 0
  or is above 1.  With \<open>a = fromComponents(1,2,3,4)\<close> and the vector \<open>v = (9, 10)\<close>,
  \<^verbatim>\<open>getColumn(a, 0.5, v)\<close> returns \<open>v\<close> holding \<open>values[0.5]\<close> and \<open>values[2.5]\<close>, both
  \<^verbatim>\<open>undefined\<close>; \<^verbatim>\<open>getRow(a, 0.5, v)\<close> returns \<open>v\<close> holding \<open>values[1]\<close> and
  \<open>values[2]\<close>; \<^verbatim>\<open>setColumn(a, 0.5, v)\<close> returns an unchanged copy of \<open>a\<close>; and
  \<^verbatim>\<open>setRow(a, 0.5, v)\<close> returns a copy with \<open>values[1]\<close> and \<open>values[2]\<close> replaced.  None
  raises an error.
\<close>

theorem index_guard_evaluation:
  "newCartesian2 sampleHeap (Num (Fin 9)) (Num (Fin 10)) = (6, vectorHeap) \<and>
   badIndex (Num (Fin (1 / 2))) = False \<and>
   (case getColumn vectorHeap (Some 3) (Num (Fin (1 / 2))) (Some 6) of
      Inl e \<Rightarrow> False
    | Inr (c, h') \<Rightarrow> c = 6 \<and> coordinates h' c = Some (Undefined, Undefined)) \<and>
   (case getRow vectorHeap (Some 3) (Num (Fin (1 / 2))) (Some 6) of
      Inl e \<Rightarrow> False
    | Inr (c, h') \<Rightarrow> c = 6 \<and> coordinates h' c = Some (Num (Fin 2), Num (Fin 3))) \<and>
   (case setColumn vectorHeap (Some 3) (Num (Fin (1 / 2))) (Some 6) None of
      Inl e \<Rightarrow> False
    | Inr (m, h') \<Rightarrow>
        components h' m = Some [Num (Fin 1), Num (Fin 2), Num (Fin 3), Num (Fin 4)]) \<and>
   (case setRow vectorHeap (Some 3) (Num (Fin (1 / 2))) (Some 6) None of
      Inl e \<Rightarrow> False
    | Inr (m, h') \<Rightarrow>
        components h' m = Some [Num (Fin 1), Num (Fin 9), Num (Fin 10), Num (Fin 4)])"
  by (simp add: vectorHeap_eq)
     (simp add: vectorHeap_def sampleHeap_def badIndex_def getColumn_def
      getRow_def setColumn_def setRow_def matrixValue_def valuesOf_def elemGet_def objAt_def
      coordinates_def components_def clone_def slice0_def newMatrix2_def isArray_def alloc_def
      setResultValue_def elemSet_def isFrozen_def store_def getX_def getY_def setX_def setY_def
      isIndex_def lookupProp_def writeElem_def Let_def)

subsection \<open>C5: the identity constant\<close>

text \<open>
  C5 at an input where the code departs from it.  Loading the module leaves the frozen
  instance \<open>IDENTITY\<close> with the components \<open>(1, 0, 0, 1)\<close>.  The call
  \<^verbatim>\<open>fromComponents(5, 6, 7, 8, IDENTITY)\<close> succeeds and \<open>IDENTITY\<close>, still frozen, then
  holds \<open>(5, 6, 7, 8)\<close>: \<^verbatim>\<open>Object.freeze\<close> protects the instance, not the array its
  \<open>values\<close> property refers to.
\<close>

theorem identity_mutation_evaluation:
  "moduleInit = Inr (IDENTITY, initialHeap) \<and>
   isFrozen initialHeap IDENTITY \<and>
   components initialHeap IDENTITY =
     Some [Num (Fin 1), Num (Fin 0), Num (Fin 0), Num (Fin 1)] \<and>
   (case fromComponents initialHeap (Num (Fin 5)) (Num (Fin 6)) (Num (Fin 7)) (Num (Fin 8))
           (Some IDENTITY) of
      Inl e \<Rightarrow> False
    | Inr (m, h') \<Rightarrow>
        m = IDENTITY \<and> isFrozen h' IDENTITY \<and>
        components h' IDENTITY = Some [Num (Fin 5), Num (Fin 6), Num (Fin 7), Num (Fin 8)])"
  by (simp add: moduleInit_def fromComponents_def newMatrix2Of_eq objectFreeze_def
      IDENTITY_def initialHeap_def isFrozen_def components_def objAt_def setResultValue_def
      valuesOf_def elemSet_def store_def writeElem_def)

subsection \<open>C6: the guard of fromRowMajorArray\<close>

text \<open>
  C6, as amended.  \<^verbatim>\<open>fromRowMajorArray(values, result)\<close> raises the error exactly when
  \<open>values\<close> is not an array: it raises it when \<open>values\<close> is absent or an object of
  another class, and never when \<open>values\<close> is an array.  The length of the array is not
  examined: for an array of any length the allocating call returns the matrix with the
  components \<open>values[0]\<close>, \<open>values[2]\<close>, \<open>values[1]\<close>, \<open>values[3]\<close>, where a position
  past the end of the array reads as \<^verbatim>\<open>undefined\<close>.
\<close>

theorem fromRowMajorArray_guard:
  "(isArray h vals = False \<longrightarrow>
      fromRowMajorArray h vals result = Inl (DeveloperError ''values must be an array'')) \<and>
   (isArray h vals \<longrightarrow> noDeveloperError (fromRowMajorArray h vals result)) \<and>
   (objAt h a = Some (ArrayObj es ps) \<longrightarrow>
      (\<exists>m h'. fromRowMajorArray h (Some a) None = Inr (m, h') \<and>
         components h' m =
           Some [arrayRead es ps (Fin 0), arrayRead es ps (Fin 2),
                 arrayRead es ps (Fin 1), arrayRead es ps (Fin 3)]))"
proof (intro conjI impI)
  assume "isArray h vals = False"
  then show "fromRowMajorArray h vals result = Inl (DeveloperError ''values must be an array'')"
    by (cases vals) (simp_all add: fromRowMajorArray_def)
next
  assume arr: "isArray h vals"
  then obtain va where v: "vals = Some va" by (cases vals) (simp_all add: isArray_def)
  show "noDeveloperError (fromRowMajorArray h vals result)"
  proof (cases result)
    case None
    from arr v obtain es ps where "objAt h va = Some (ArrayObj es ps)"
      by (auto simp: isArray_Some)
    then show ?thesis using None v by (simp add: fromRowMajorArray_new del: arrayRead.simps)
  next
    case (Some res)
    with arr v show ?thesis
      by (simp add: fromRowMajorArray_def noDev_bindE)
  qed
next
  assume "objAt h a = Some (ArrayObj es ps)"
  then show "\<exists>m h'. fromRowMajorArray h (Some a) None = Inr (m, h') \<and>
         components h' m =
           Some [arrayRead es ps (Fin 0), arrayRead es ps (Fin 2),
                 arrayRead es ps (Fin 1), arrayRead es ps (Fin 3)]"
    by (simp add: fromRowMajorArray_new components_fresh del: arrayRead.simps)
qed

theorem fromRowMajorArray_guard_witness:
  "isArray sampleHeap (Some 3) = False \<and>
   fromRowMajorArray sampleHeap (Some 3) None =
     Inl (DeveloperError ''values must be an array'') \<and>
   isArray sampleHeap (Some 2) \<and>
   noDeveloperError (fromRowMajorArray sampleHeap (Some 2) (Some 5)) \<and>
   objAt sampleHeap 2 =
     Some (ArrayObj [Num (Fin 1), Num (Fin 2), Num (Fin 3), Num (Fin 4)] []) \<and>
   (\<exists>m h'. fromRowMajorArray sampleHeap (Some 2) None = Inr (m, h') \<and>
      components h' m = Some [Num (Fin 1), Num (Fin 3), Num (Fin 2), Num (Fin 4)])"
proof -
  have n: "isArray sampleHeap (Some 3) = False"
    by (simp add: isArray_def objAt_def sampleHeap_def)
  have y: "isArray sampleHeap (Some 2)"
    by (simp add: isArray_def objAt_def sampleHeap_def)
  have o: "objAt sampleHeap 2 =
     Some (ArrayObj [Num (Fin 1), Num (Fin 2), Num (Fin 3), Num (Fin 4)] [])"
    by (simp add: objAt_def sampleHeap_def)
  from fromRowMajorArray_guard [of sampleHeap "Some 3" None] n
  have e: "fromRowMajorArray sampleHeap (Some 3) None =
     Inl (DeveloperError ''values must be an array'')" by blast
  from fromRowMajorArray_guard [of sampleHeap "Some 2" "Some 5" 2
      "[Num (Fin 1), Num (Fin 2), Num (Fin 3), Num (Fin 4)]" "[]"] y o
  have "noDeveloperError (fromRowMajorArray sampleHeap (Some 2) (Some 5))"
    and "\<exists>m h'. fromRowMajorArray sampleHeap (Some 2) None = Inr (m, h') \<and>
      components h' m =
        Some [arrayRead [Num (Fin 1), Num (Fin 2), Num (Fin 3), Num (Fin 4)] [] (Fin 0),
              arrayRead [Num (Fin 1), Num (Fin 2), Num (Fin 3), Num (Fin 4)] [] (Fin 2),
              arrayRead [Num (Fin 1), Num (Fin 2), Num (Fin 3), Num (Fin 4)] [] (Fin 1),
              arrayRead [Num (Fin 1), Num (Fin 2), Num (Fin 3), Num (Fin 4)] [] (Fin 3)]"
    by blast+
  with n y o e show ?thesis by simp
qed

text \<open>
  C6 as stated fails: the two-element array \<open>[1, 2]\<close> is not a 4-element sequence, and
  \<^verbatim>\<open>fromRowMajorArray([1, 2])\<close> returns a matrix with the components
  \<open>(1, undefined, 2, undefined)\<close> instead of raising the error.
\<close>

theorem fromRowMajorArray_guard_counterexample:
  "(case alloc initialHeap (ArrayObj [Num (Fin 1), Num (Fin 2)] []) of
      (a, h) \<Rightarrow>
        isArray h (Some a) \<and>
        (case fromRowMajorArray h (Some a) None of
           Inl e \<Rightarrow> False
         | Inr (m, h') \<Rightarrow>
             components h' m = Some [Num (Fin 1), Undefined, Num (Fin 2), Undefined]))"
  by (simp add: alloc_def initialHeap_def isArray_def objAt_def fromRowMajorArray_def
      elemGet_def newMatrix2Of_eq components_def)

subsection \<open>C7: equals\<close>

text \<open>
  C7.  \<^verbatim>\<open>equals(left, right)\<close> returns true when the two arguments are the same
  reference or both absent, false when exactly one is absent, and for two distinct
  matrices the conjunction of the four strict comparisons of their components.  Strict
  equality \<^verbatim>\<open>===\<close> is the exact equality of the language, under which NaN differs
  from itself; when no component of \<open>left\<close> is NaN the result is the equality of the two
  component lists.  For arguments that are absent or matrices the call returns a boolean
  and raises no error.
\<close>

theorem equals_spec:
  "equals h x x = Inr True \<and>
   equals h None (Some r) = Inr False \<and>
   equals h (Some l) None = Inr False \<and>
   (l \<noteq> r \<longrightarrow> components h l = Some [l0, l1, l2, l3] \<longrightarrow>
      components h r = Some [r0, r1, r2, r3] \<longrightarrow>
      equals h (Some l) (Some r) =
        Inr (strictEq l0 r0 \<and> strictEq l1 r1 \<and> strictEq l2 r2 \<and> strictEq l3 r3) \<and>
      (Num NaN \<notin> set [l0, l1, l2, l3] \<longrightarrow>
         equals h (Some l) (Some r) = Inr ([l0, l1, l2, l3] = [r0, r1, r2, r3]))) \<and>
   (matrixOrAbsent h left \<longrightarrow> matrixOrAbsent h right \<longrightarrow>
      (\<exists>b. equals h left right = Inr b))"
proof (intro conjI impI)
  show "equals h x x = Inr True" by (simp add: equals_def)
  show "equals h None (Some r) = Inr False" by (simp add: equals_def)
  show "equals h (Some l) None = Inr False" by (simp add: equals_def)
next
  assume "l \<noteq> r" "components h l = Some [l0, l1, l2, l3]" "components h r = Some [r0, r1, r2, r3]"
  then show e: "equals h (Some l) (Some r) =
        Inr (strictEq l0 r0 \<and> strictEq l1 r1 \<and> strictEq l2 r2 \<and> strictEq l3 r3)"
    by (simp add: equals_components)
  assume "Num NaN \<notin> set [l0, l1, l2, l3]"
  with e show "equals h (Some l) (Some r) = Inr ([l0, l1, l2, l3] = [r0, r1, r2, r3])"
    by (auto simp: strictEq_iff)
next
  assume "matrixOrAbsent h left" "matrixOrAbsent h right"
  then show "\<exists>b. equals h left right = Inr b" by (rule equals_total)
qed

theorem equals_spec_witness:
  "(3::nat) \<noteq> 5 \<and>
   components sampleHeap 3 = Some [Num (Fin 1), Num (Fin 2), Num (Fin 3), Num (Fin 4)] \<and>
   components sampleHeap 5 = Some [Num (Fin 5), Num (Fin 6), Num (Fin 7), Num (Fin 8)] \<and>
   Num NaN \<notin> set [Num (Fin 1), Num (Fin 2), Num (Fin 3), Num (Fin 4)] \<and>
   matrixOrAbsent sampleHeap (Some 3) \<and> matrixOrAbsent sampleHeap None \<and>
   equals sampleHeap (Some 3) (Some 5) = Inr False \<and>
   equals sampleHeap (Some 3) (Some 3) = Inr True \<and>
   equals sampleHeap None None = Inr True \<and>
   equals sampleHeap (Some 3) None = Inr False \<and>
   (\<exists>b. equals sampleHeap (Some 3) None = Inr b)"
proof -
  note g = equals_spec [of sampleHeap "Some 3" 5 3 "Num (Fin 1)" "Num (Fin 2)" "Num (Fin 3)"
      "Num (Fin 4)" "Num (Fin 5)" "Num (Fin 6)" "Num (Fin 7)" "Num (Fin 8)" "Some 3" None]
  have ne: "(3::nat) \<noteq> 5" by simp
  have nan: "Num NaN \<notin> set [Num (Fin 1), Num (Fin 2), Num (Fin 3), Num (Fin 4)]" by simp
  have t: "matrixOrAbsent sampleHeap (Some 3)" "matrixOrAbsent sampleHeap None"
    by (simp_all add: matrixOrAbsent_def components_sampleHeap)
  from g ne components_sampleHeap(2,3) nan
  have "equals sampleHeap (Some 3) (Some 5) =
      Inr ([Num (Fin 1), Num (Fin 2), Num (Fin 3), Num (Fin 4)] =
           [Num (Fin 5), Num (Fin 6), Num (Fin 7), Num (Fin 8)])"
    by blast
  then have e: "equals sampleHeap (Some 3) (Some 5) = Inr False" by simp
  from g have e1: "equals sampleHeap (Some 3) (Some 3) = Inr True"
    and e3: "equals sampleHeap (Some 3) None = Inr False" by blast+
  have e2: "equals sampleHeap None None = Inr True"
    using equals_spec [of sampleHeap None] by blast
  from g t have e4: "\<exists>b. equals sampleHeap (Some 3) None = Inr b" by blast
  from ne components_sampleHeap(2,3) nan t e e1 e2 e3 e4 show ?thesis by blast
qed

subsection \<open>C8: the identity law\<close>

text \<open>
  C8, as amended.  While \<open>IDENTITY\<close> holds the components \<open>(1, 0, 0, 1)\<close>, for every
  matrix \<open>M\<close> whose four components are finite numbers, \<^verbatim>\<open>multiply(IDENTITY, M)\<close> and
  \<^verbatim>\<open>multiply(M, IDENTITY)\<close> have the components of \<open>M\<close>.  Finiteness is necessary:
  \<^verbatim>\<open>equals\<close> reports either product as equal to \<open>M\<close> exactly when all four components
  of \<open>M\<close> are finite, since \<open>0 * Infinity\<close> and every operation on NaN or \<^verbatim>\<open>undefined\<close>
  give NaN.  For finite components the products by 1 and 0 and the sums with 0 are exact
  in double arithmetic too, so the statement does not depend on rounding.
\<close>

theorem multiply_identity:
  assumes I: "components h IDENTITY = Some [Num (Fin 1), Num (Fin 0), Num (Fin 0), Num (Fin 1)]"
    and M: "components h m = Some [m0, m1, m2, m3]"
  shows "\<exists>p h1 q h2.
           multiply h (Some IDENTITY) (Some m) None = Inr (p, h1) \<and>
           multiply h (Some m) (Some IDENTITY) None = Inr (q, h2) \<and>
           equals h1 (Some p) (Some m) =
             Inr (finiteV m0 \<and> finiteV m1 \<and> finiteV m2 \<and> finiteV m3) \<and>
           equals h2 (Some q) (Some m) =
             Inr (finiteV m0 \<and> finiteV m1 \<and> finiteV m2 \<and> finiteV m3) \<and>
           (finiteV m0 \<and> finiteV m1 \<and> finiteV m2 \<and> finiteV m3 \<longrightarrow>
              components h1 p = Some [m0, m1, m2, m3] \<and>
              components h2 q = Some [m0, m1, m2, m3])"
proof -
  let ?p0 = "addV (mulV (Num (Fin 1)) m0) (mulV (Num (Fin 0)) m2)"
  let ?p1 = "addV (mulV (Num (Fin 1)) m1) (mulV (Num (Fin 0)) m3)"
  let ?p2 = "addV (mulV (Num (Fin 0)) m0) (mulV (Num (Fin 1)) m2)"
  let ?p3 = "addV (mulV (Num (Fin 0)) m1) (mulV (Num (Fin 1)) m3)"
  let ?q0 = "addV (mulV m0 (Num (Fin 1))) (mulV m1 (Num (Fin 0)))"
  let ?q1 = "addV (mulV m0 (Num (Fin 0))) (mulV m1 (Num (Fin 1)))"
  let ?q2 = "addV (mulV m2 (Num (Fin 1))) (mulV m3 (Num (Fin 0)))"
  let ?q3 = "addV (mulV m2 (Num (Fin 0))) (mulV m3 (Num (Fin 1)))"
  let ?h1 = "h @ [\<lparr>body = ArrayObj [?p0, ?p1, ?p2, ?p3] [], frozen = False\<rparr>,
                  \<lparr>body = Matrix2Obj (length h), frozen = False\<rparr>]"
  let ?h2 = "h @ [\<lparr>body = ArrayObj [?q0, ?q1, ?q2, ?q3] [], frozen = False\<rparr>,
                  \<lparr>body = Matrix2Obj (length h), frozen = False\<rparr>]"
  let ?fin = "finiteV m0 \<and> finiteV m1 \<and> finiteV m2 \<and> finiteV m3"
  have p: "multiply h (Some IDENTITY) (Some m) None = Inr (Suc (length h), ?h1)"
    by (rule multiply_new_eq [OF I M])
  have q: "multiply h (Some m) (Some IDENTITY) None = Inr (Suc (length h), ?h2)"
    by (rule multiply_new_eq [OF M I])
  have pc: "components ?h1 (Suc (length h)) = Some [?p0, ?p1, ?p2, ?p3]"
    by (rule components_fresh)
  have qc: "components ?h2 (Suc (length h)) = Some [?q0, ?q1, ?q2, ?q3]"
    by (rule components_fresh)
  have m1: "components ?h1 m = Some [m0, m1, m2, m3]" using M by (rule components_mono)
  have m2: "components ?h2 m = Some [m0, m1, m2, m3]" using M by (rule components_mono)
  from M have "m < length h" by (rule components_less)
  then have ne: "Suc (length h) \<noteq> m" by simp
  have ep: "equals ?h1 (Some (Suc (length h))) (Some m) = Inr ?fin"
    unfolding equals_components [OF pc m1 ne]
    using finiteV_not [of m0] finiteV_not [of m1] finiteV_not [of m2] finiteV_not [of m3]
    by (auto simp: identity_left_diag identity_left_off)
  have eq: "equals ?h2 (Some (Suc (length h))) (Some m) = Inr ?fin"
    unfolding equals_components [OF qc m2 ne]
    using finiteV_not [of m0] finiteV_not [of m1] finiteV_not [of m2] finiteV_not [of m3]
    by (auto simp: identity_right_diag identity_right_off)
  have fp: "?fin \<longrightarrow> [?p0, ?p1, ?p2, ?p3] = [m0, m1, m2, m3]"
    using finiteV_not [of m0] finiteV_not [of m1] finiteV_not [of m2] finiteV_not [of m3]
    by (auto intro!: finiteV_strictEq simp: identity_left_diag identity_left_off)
  have fq: "?fin \<longrightarrow> [?q0, ?q1, ?q2, ?q3] = [m0, m1, m2, m3]"
    using finiteV_not [of m0] finiteV_not [of m1] finiteV_not [of m2] finiteV_not [of m3]
    by (auto intro!: finiteV_strictEq simp: identity_right_diag identity_right_off)
  have gp: "?fin \<longrightarrow> components ?h1 (Suc (length h)) = Some [m0, m1, m2, m3]"
    unfolding pc using fp by simp
  have gq: "?fin \<longrightarrow> components ?h2 (Suc (length h)) = Some [m0, m1, m2, m3]"
    unfolding qc using fq by simp
  from p q ep eq gp gq show ?thesis by blast
qed

theorem multiply_identity_witness:
  "components sampleHeap IDENTITY = Some [Num (Fin 1), Num (Fin 0), Num (Fin 0), Num (Fin 1)] \<and>
   components sampleHeap 3 = Some [Num (Fin 1), Num (Fin 2), Num (Fin 3), Num (Fin 4)] \<and>
   finiteV (Num (Fin 1)) \<and> finiteV (Num (Fin 2)) \<and> finiteV (Num (Fin 3)) \<and> finiteV (Num (Fin 4)) \<and>
   (\<exists>p h1 q h2.
      multiply sampleHeap (Some IDENTITY) (Some 3) None = Inr (p, h1) \<and>
      multiply sampleHeap (Some 3) (Some IDENTITY) None = Inr (q, h2) \<and>
      equals h1 (Some p) (Some 3) = Inr True \<and>
      equals h2 (Some q) (Some 3) = Inr True \<and>
      components h1 p = Some [Num (Fin 1), Num (Fin 2), Num (Fin 3), Num (Fin 4)] \<and>
      components h2 q = Some [Num (Fin 1), Num (Fin 2), Num (Fin 3), Num (Fin 4)])"
proof -
  from multiply_identity [OF components_sampleHeap(1) components_sampleHeap(2)]
  show ?thesis using components_sampleHeap(1,2) by simp
qed

text \<open>
  C8 as stated, for every matrix, fails: with \<open>M = fromComponents(1, 2, Infinity, 4)\<close>
  the first component of \<^verbatim>\<open>multiply(IDENTITY, M)\<close> is \<open>1 * 1 + 0 * Infinity\<close>, which is
  NaN and not 1.
\<close>

theorem multiply_identity_counterexample:
  "(case fromComponents initialHeap (Num (Fin 1)) (Num (Fin 2)) (Num PInf) (Num (Fin 4)) None of
      Inl e \<Rightarrow> False
    | Inr (m, h) \<Rightarrow>
        components h IDENTITY = Some [Num (Fin 1), Num (Fin 0), Num (Fin 0), Num (Fin 1)] \<and>
        components h m = Some [Num (Fin 1), Num (Fin 2), Num PInf, Num (Fin 4)] \<and>
        (case multiply h (Some IDENTITY) (Some m) None of
           Inl e \<Rightarrow> False
         | Inr (p, h1) \<Rightarrow>
             components h1 p = Some [Num NaN, Num (Fin 2), Num PInf, Num (Fin 4)] \<and>
             components h1 m = Some [Num (Fin 1), Num (Fin 2), Num PInf, Num (Fin 4)] \<and>
             equals h1 (Some p) (Some m) = Inr False))"
proof -
  define h where "h = initialHeap @
     [\<lparr>body = ArrayObj [Num (Fin 1), Num (Fin 2), Num PInf, Num (Fin 4)] [], frozen = False\<rparr>,
      \<lparr>body = Matrix2Obj (length initialHeap), frozen = False\<rparr>]"
  have len: "length initialHeap = 2" by (simp add: initialHeap_def)
  have f: "fromComponents initialHeap (Num (Fin 1)) (Num (Fin 2)) (Num PInf) (Num (Fin 4)) None
      = Inr (3, h)"
    by (simp add: fromComponents_new h_def len)
  have i0: "components initialHeap IDENTITY =
      Some [Num (Fin 1), Num (Fin 0), Num (Fin 0), Num (Fin 1)]"
    by (simp add: components_def objAt_def initialHeap_def IDENTITY_def)
  have i: "components h IDENTITY = Some [Num (Fin 1), Num (Fin 0), Num (Fin 0), Num (Fin 1)]"
    unfolding h_def using i0 by (rule components_mono)
  have m: "components h 3 = Some [Num (Fin 1), Num (Fin 2), Num PInf, Num (Fin 4)]"
    using components_fresh [of initialHeap] by (simp add: h_def len)
  define h1 where "h1 = h @
     [\<lparr>body = ArrayObj [Num NaN, Num (Fin 2), Num PInf, Num (Fin 4)] [], frozen = False\<rparr>,
      \<lparr>body = Matrix2Obj (length h), frozen = False\<rparr>]"
  have lenh: "length h = 4" by (simp add: h_def len)
  have p: "multiply h (Some IDENTITY) (Some 3) None = Inr (5, h1)"
    unfolding multiply_new_eq [OF i m]
    by (simp add: h1_def lenh addV_def mulV_def infTimes_def)
  have pc: "components h1 5 = Some [Num NaN, Num (Fin 2), Num PInf, Num (Fin 4)]"
    using components_fresh [of h] by (simp add: h1_def lenh)
  have mc: "components h1 3 = Some [Num (Fin 1), Num (Fin 2), Num PInf, Num (Fin 4)]"
    unfolding h1_def using m by (rule components_mono)
  have ne: "(5::nat) \<noteq> 3" by simp
  have e: "equals h1 (Some 5) (Some 3) = Inr False"
    unfolding equals_components [OF pc mc ne] by simp
  show ?thesis by (simp add: f i m p pc mc e)
qed

subsection \<open>C9: the string form\<close>

text \<open>
  C9.  For every matrix with components \<open>v0 .. v3\<close>, \<^verbatim>\<open>toString\<close> returns the text of
  the first row, one newline, and the text of the second row, where the rows are the
  pairs that \<^verbatim>\<open>getRow\<close> with index 0 and with index 1 store in a supplied vector, and
  the text of a row is its two values in parentheses separated by a comma and a space.
  The string ends with the closing parenthesis, so there is no trailing newline, and
  when the host's number printing yields no newline neither row text contains one, so
  the string has exactly two lines.  In particular
  \<^verbatim>\<open>toString(fromComponents(1,2,3,4))\<close> is \<^verbatim>\<open>"(1, 2)\n(3, 4)"\<close>.
\<close>

theorem toString_format:
  "(components h m = Some [v0, v1, v2, v3] \<longrightarrow>
      toString fmt h (Some m) = Inr (rowText fmt v0 v1 @ ''\<newline>'' @ rowText fmt v2 v3) \<and>
      (writableVector h v \<longrightarrow>
         (\<exists>h'. getRow h (Some m) (Num (Fin 0)) (Some v) = Inr (v, h') \<and>
            coordinates h' v = Some (v0, v1)) \<and>
         (\<exists>h'. getRow h (Some m) (Num (Fin 1)) (Some v) = Inr (v, h') \<and>
            coordinates h' v = Some (v2, v3))) \<and>
      last (rowText fmt v0 v1 @ ''\<newline>'' @ rowText fmt v2 v3) = CHR '')'' \<and>
      ((\<forall>r. CHR ''\<newline>'' \<notin> set (fmt r)) \<longrightarrow>
         CHR ''\<newline>'' \<notin> set (rowText fmt v0 v1) \<and>
         CHR ''\<newline>'' \<notin> set (rowText fmt v2 v3))) \<and>
   (case fromComponents h0 (Num (Fin 1)) (Num (Fin 2)) (Num (Fin 3)) (Num (Fin 4)) None of
      Inl e \<Rightarrow> False
    | Inr (a, h1) \<Rightarrow> toString fmt h1 (Some a) = Inr ''(1, 2)\<newline>(3, 4)'')"
proof (intro conjI impI)
  assume c: "components h m = Some [v0, v1, v2, v3]"
  then show "toString fmt h (Some m) = Inr (rowText fmt v0 v1 @ ''\<newline>'' @ rowText fmt v2 v3)"
    by (rule toString_components)
  show "last (rowText fmt v0 v1 @ ''\<newline>'' @ rowText fmt v2 v3) = CHR '')''"
    by (simp add: rowText_def)
  assume w: "writableVector h v"
  from c w show "\<exists>h'. getRow h (Some m) (Num (Fin 0)) (Some v) = Inr (v, h') \<and>
            coordinates h' v = Some (v0, v1)"
    by (rule getRow_into)
  from c w show "\<exists>h'. getRow h (Some m) (Num (Fin 1)) (Some v) = Inr (v, h') \<and>
            coordinates h' v = Some (v2, v3)"
    by (rule getRow_into)
next
  assume n: "\<forall>r. CHR ''\<newline>'' \<notin> set (fmt r)"
  then show "CHR ''\<newline>'' \<notin> set (rowText fmt v0 v1)" by (rule rowText_no_newline)
  from n show "CHR ''\<newline>'' \<notin> set (rowText fmt v2 v3)" by (rule rowText_no_newline)
next
  have "toString fmt
      (h0 @ [\<lparr>body = ArrayObj [Num (Fin 1), Num (Fin 2), Num (Fin 3), Num (Fin 4)] [],
               frozen = False\<rparr>,
             \<lparr>body = Matrix2Obj (length h0), frozen = False\<rparr>]) (Some (Suc (length h0)))
      = Inr (rowText fmt (Num (Fin 1)) (Num (Fin 2)) @ ''\<newline>'' @
             rowText fmt (Num (Fin 3)) (Num (Fin 4)))"
    by (rule toString_components) (rule components_fresh)
  then show "case fromComponents h0 (Num (Fin 1)) (Num (Fin 2)) (Num (Fin 3)) (Num (Fin 4)) None of
      Inl e \<Rightarrow> False
    | Inr (a, h1) \<Rightarrow> toString fmt h1 (Some a) = Inr ''(1, 2)\<newline>(3, 4)''"
    by (simp add: fromComponents_new rowText_def valueToString_def numberToString_def)
qed

theorem toString_format_witness:
  "components vectorHeap 3 = Some [Num (Fin 1), Num (Fin 2), Num (Fin 3), Num (Fin 4)] \<and>
   writableVector vectorHeap 6 \<and>
   (\<forall>r. CHR ''\<newline>'' \<notin> set ((\<lambda>x. ''?'') r)) \<and>
   toString (\<lambda>x. ''?'') vectorHeap (Some 3) = Inr ''(1, 2)\<newline>(3, 4)'' \<and>
   (\<exists>h'. getRow vectorHeap (Some 3) (Num (Fin 0)) (Some 6) = Inr (6, h') \<and>
      coordinates h' 6 = Some (Num (Fin 1), Num (Fin 2))) \<and>
   (\<exists>h'. getRow vectorHeap (Some 3) (Num (Fin 1)) (Some 6) = Inr (6, h') \<and>
      coordinates h' 6 = Some (Num (Fin 3), Num (Fin 4))) \<and>
   CHR ''\<newline>'' \<notin> set ''(1, 2)'' \<and> CHR ''\<newline>'' \<notin> set ''(3, 4)''"
proof -
  note g = toString_format [of vectorHeap 3 "Num (Fin 1)" "Num (Fin 2)" "Num (Fin 3)"
      "Num (Fin 4)" "\<lambda>x. ''?''" 6 "[]", THEN conjunct1, rule_format]
  have s: "toString (\<lambda>x. ''?'') vectorHeap (Some 3) =
      Inr (rowText (\<lambda>x. ''?'') (Num (Fin 1)) (Num (Fin 2)) @ ''\<newline>'' @
           rowText (\<lambda>x. ''?'') (Num (Fin 3)) (Num (Fin 4)))"
    using g [OF vectorHeap_facts(1)] by blast
  have n: "\<forall>r. CHR ''\<newline>'' \<notin> set ((\<lambda>x. ''?'') r)" by simp
  have r: "rowText (\<lambda>x. ''?'') (Num (Fin 1)) (Num (Fin 2)) = ''(1, 2)''"
    "rowText (\<lambda>x. ''?'') (Num (Fin 3)) (Num (Fin 4)) = ''(3, 4)''"
    by (simp_all add: rowText_def valueToString_def numberToString_def)
  from g [OF vectorHeap_facts(1)] n
  have nl: "CHR ''\<newline>'' \<notin> set (rowText (\<lambda>x. ''?'') (Num (Fin 1)) (Num (Fin 2))) \<and>
        CHR ''\<newline>'' \<notin> set (rowText (\<lambda>x. ''?'') (Num (Fin 3)) (Num (Fin 4)))"
    by blast
  from g [OF vectorHeap_facts(1)] vectorHeap_facts(2)
  have rows: "(\<exists>h'. getRow vectorHeap (Some 3) (Num (Fin 0)) (Some 6) = Inr (6, h') \<and>
      coordinates h' 6 = Some (Num (Fin 1), Num (Fin 2))) \<and>
   (\<exists>h'. getRow vectorHeap (Some 3) (Num (Fin 1)) (Some 6) = Inr (6, h') \<and>
      coordinates h' 6 = Some (Num (Fin 3), Num (Fin 4)))"
    by blast
  from s n nl rows vectorHeap_facts show ?thesis unfolding r by simp
qed

subsection \<open>C10: the identity shortcut of equalsEpsilon\<close>

text \<open>
  C10.  \<^verbatim>\<open>equalsEpsilon\<close> validates \<open>epsilon\<close> first: without a numeric epsilon it
  raises the error whatever the operands are, also for one instance given twice.  With a
  numeric epsilon, of any sign and also NaN, the same reference on both sides gives true
  before any component is compared.  Two distinct instances with identical components
  compared with an epsilon below zero give false.
\<close>

theorem equalsEpsilon_identity_shortcut:
  "equalsEpsilon h left right Undefined =
     Inl (DeveloperError ''epsilon is required and must be a number'') \<and>
   equalsEpsilon h x x (Num eps) = Inr True \<and>
   (l \<noteq> r \<longrightarrow> components h l = Some cs \<longrightarrow> components h r = Some cs \<longrightarrow>
      jsLt eps (Fin 0) \<longrightarrow> equalsEpsilon h (Some l) (Some r) (Num eps) = Inr False)"
proof (intro conjI impI)
  show "equalsEpsilon h left right Undefined =
     Inl (DeveloperError ''epsilon is required and must be a number'')"
    by (simp add: equalsEpsilon_def)
  show "equalsEpsilon h x x (Num eps) = Inr True" by (simp add: equalsEpsilon_def)
next
  assume ne: "l \<noteq> r" and l: "components h l = Some cs" and r: "components h r = Some cs"
    and neg: "jsLt eps (Fin 0)"
  from l obtain c0 c1 c2 c3 where cs: "cs = [c0, c1, c2, c3]" by (rule components_four)
  from l r ne show "equalsEpsilon h (Some l) (Some r) (Num eps) = Inr False"
    unfolding cs by (simp add: equalsEpsilon_components absDiff_self [OF neg])
qed

theorem equalsEpsilon_identity_shortcut_witness:
  "(3::nat) \<noteq> 5 \<and> jsLt (Fin (- 1)) (Fin 0) \<and>
   (case fromComponents sampleHeap (Num (Fin 5)) (Num (Fin 6)) (Num (Fin 7)) (Num (Fin 8)) (Some 3) of
      Inl e \<Rightarrow> False
    | Inr (a, h) \<Rightarrow>
        components h 3 = Some [Num (Fin 5), Num (Fin 6), Num (Fin 7), Num (Fin 8)] \<and>
        components h 5 = Some [Num (Fin 5), Num (Fin 6), Num (Fin 7), Num (Fin 8)] \<and>
        equalsEpsilon h (Some 3) (Some 5) (Num (Fin (- 1))) = Inr False \<and>
        equalsEpsilon h (Some 3) (Some 3) (Num (Fin (- 1))) = Inr True)"
proof -
  define h where "h = store sampleHeap 2
      (ArrayObj (writeFour [Num (Fin 1), Num (Fin 2), Num (Fin 3), Num (Fin 4)]
         (Num (Fin 5)) (Num (Fin 6)) (Num (Fin 7)) (Num (Fin 8))) [])"
  have f: "fromComponents sampleHeap (Num (Fin 5)) (Num (Fin 6)) (Num (Fin 7)) (Num (Fin 8)) (Some 3)
      = Inr (3, h)"
    by (simp add: fromComponents_def setResultValue_def valuesOf_def elemSet_def objAt_def
        isFrozen_def store_def sampleHeap_def h_def writeFour_def)
  have c3: "components h 3 = Some [Num (Fin 5), Num (Fin 6), Num (Fin 7), Num (Fin 8)]"
    unfolding h_def by (rule components_store) (simp_all add: objAt_def sampleHeap_def)
  have c5: "components h 5 = Some [Num (Fin 5), Num (Fin 6), Num (Fin 7), Num (Fin 8)]"
    by (simp add: h_def components_def objAt_def store_def sampleHeap_def)
  have ne: "(3::nat) \<noteq> 5" by simp
  have neg: "jsLt (Fin (- 1)) (Fin 0)" by simp
  note g = equalsEpsilon_identity_shortcut [of h None None "Some 3" "Fin (- 1)" 3 5
      "[Num (Fin 5), Num (Fin 6), Num (Fin 7), Num (Fin 8)]"]
  from g ne c3 c5 neg have e: "equalsEpsilon h (Some 3) (Some 5) (Num (Fin (- 1))) = Inr False"
    by blast
  from g have e1: "equalsEpsilon h (Some 3) (Some 3) (Num (Fin (- 1))) = Inr True" by blast
  from ne neg c3 c5 e e1 show ?thesis by (simp add: f)
qed

end
